theory Spec2Isabelle
  imports Complex_Main "HOL-Library.Sublist" "HOL-Library.Multiset"
begin

section \<open>Values of type double\<close>

text \<open>
  The docking code computes with C++ \<open>double\<close>. The embedding keeps the special values
  of IEEE arithmetic, because the code's behaviour at a zero denominator or a zero vector
  is what several properties are about: a double is a number, plus or minus infinity, or
  NaN. Numbers are real numbers and the operations on them are exact: rounding, overflow
  to infinity and the sign of zero are not modelled (the one zero \<open>Num 0\<close> is read as
  \<open>+0.0\<close>). Every comparison with NaN is false, \<open>0/0\<close>, \<open>0 * inf\<close> and \<open>inf - inf\<close>
  are NaN, and \<open>x/0\<close> is an infinity for a number \<open>x\<close> other than zero.
\<close>

datatype double = Num real | PInf | NInf | NaN

fun dneg :: "double \<Rightarrow> double" where
  "dneg (Num a) = Num (- a)"
| "dneg PInf = NInf"
| "dneg NInf = PInf"
| "dneg NaN = NaN"

fun dadd :: "double \<Rightarrow> double \<Rightarrow> double" where
  "dadd (Num a) (Num b) = Num (a + b)"
| "dadd NaN b = NaN"
| "dadd a NaN = NaN"
| "dadd PInf NInf = NaN"
| "dadd NInf PInf = NaN"
| "dadd PInf b = PInf"
| "dadd a PInf = PInf"
| "dadd NInf b = NInf"
| "dadd a NInf = NInf"

definition dsub :: "double \<Rightarrow> double \<Rightarrow> double" where
  "dsub a b = dadd a (dneg b)"

text \<open>An infinity with the sign of the number \<open>a\<close> (which is not zero), or its opposite.\<close>

definition inf_of_sign :: "real \<Rightarrow> double" where
  "inf_of_sign a = (if 0 < a then PInf else NInf)"

fun dmul :: "double \<Rightarrow> double \<Rightarrow> double" where
  "dmul (Num a) (Num b) = Num (a * b)"
| "dmul NaN b = NaN"
| "dmul a NaN = NaN"
| "dmul (Num a) PInf = (if a = 0 then NaN else inf_of_sign a)"
| "dmul (Num a) NInf = (if a = 0 then NaN else inf_of_sign (- a))"
| "dmul PInf (Num b) = (if b = 0 then NaN else inf_of_sign b)"
| "dmul NInf (Num b) = (if b = 0 then NaN else inf_of_sign (- b))"
| "dmul PInf PInf = PInf"
| "dmul PInf NInf = NInf"
| "dmul NInf PInf = NInf"
| "dmul NInf NInf = PInf"

fun ddiv :: "double \<Rightarrow> double \<Rightarrow> double" where
  "ddiv (Num a) (Num b) =
     (if b = 0 then (if a = 0 then NaN else inf_of_sign a) else Num (a / b))"
| "ddiv NaN b = NaN"
| "ddiv a NaN = NaN"
| "ddiv (Num a) PInf = Num 0"
| "ddiv (Num a) NInf = Num 0"
| "ddiv PInf (Num b) = (if 0 \<le> b then PInf else NInf)"
| "ddiv NInf (Num b) = (if 0 \<le> b then NInf else PInf)"
| "ddiv PInf PInf = NaN"
| "ddiv PInf NInf = NaN"
| "ddiv NInf PInf = NaN"
| "ddiv NInf NInf = NaN"

text \<open>The comparisons \<open><\<close> and \<open>==\<close> of C++ on doubles; \<open>a != b\<close> is \<open>\<not> deq a b\<close>
  and \<open>a > b\<close> is \<open>dless b a\<close>.\<close>

fun dless :: "double \<Rightarrow> double \<Rightarrow> bool" where
  "dless (Num a) (Num b) = (a < b)"
| "dless NaN b = False"
| "dless a NaN = False"
| "dless NInf NInf = False"
| "dless NInf b = True"
| "dless a NInf = False"
| "dless PInf b = False"
| "dless a PInf = True"

definition deq :: "double \<Rightarrow> double \<Rightarrow> bool" where
  "deq a b = (a \<noteq> NaN \<and> a = b)"

fun dfabs :: "double \<Rightarrow> double" where
  "dfabs (Num a) = Num \<bar>a\<bar>"
| "dfabs PInf = PInf"
| "dfabs NInf = PInf"
| "dfabs NaN = NaN"

text \<open>\<open>std::max(a, b)\<close> is \<open>(a < b) ? b : a\<close>.\<close>

definition dmax :: "double \<Rightarrow> double \<Rightarrow> double" where
  "dmax a b = (if dless a b then b else a)"

fun dsqrt :: "double \<Rightarrow> double" where
  "dsqrt (Num a) = (if a < 0 then NaN else Num (sqrt a))"
| "dsqrt PInf = PInf"
| "dsqrt NInf = NaN"
| "dsqrt NaN = NaN"

fun dacos :: "double \<Rightarrow> double" where
  "dacos (Num a) = (if - 1 \<le> a \<and> a \<le> 1 then Num (arccos a) else NaN)"
| "dacos PInf = NaN"
| "dacos NInf = NaN"
| "dacos NaN = NaN"

fun dcos :: "double \<Rightarrow> double" where
  "dcos (Num a) = Num (cos a)"
| "dcos PInf = NaN"
| "dcos NInf = NaN"
| "dcos NaN = NaN"

fun dsin :: "double \<Rightarrow> double" where
  "dsin (Num a) = Num (sin a)"
| "dsin PInf = NaN"
| "dsin NInf = NaN"
| "dsin NaN = NaN"

section \<open>The glm vectors and the operations the code calls\<close>

text \<open>
  \<open>glm::dvec3\<close> with the library's operations, each written as glm computes it:
  \<open>dot\<close> multiplies componentwise and adds the three products, \<open>length\<close> is the
  square root of \<open>dot(v, v)\<close>, \<open>normalize(v)\<close> is \<open>v * inversesqrt(dot(v, v))\<close> with
  \<open>inversesqrt(x) = 1 / sqrt(x)\<close>.
\<close>

datatype dvec3 = Vec3 (vx: double) (vy: double) (vz: double)

definition vec_add :: "dvec3 \<Rightarrow> dvec3 \<Rightarrow> dvec3" where
  "vec_add a b = Vec3 (dadd (vx a) (vx b)) (dadd (vy a) (vy b)) (dadd (vz a) (vz b))"

definition vec_sub :: "dvec3 \<Rightarrow> dvec3 \<Rightarrow> dvec3" where
  "vec_sub a b = Vec3 (dsub (vx a) (vx b)) (dsub (vy a) (vy b)) (dsub (vz a) (vz b))"

definition vec_neg :: "dvec3 \<Rightarrow> dvec3" where
  "vec_neg a = Vec3 (dneg (vx a)) (dneg (vy a)) (dneg (vz a))"

definition vec_scale :: "dvec3 \<Rightarrow> double \<Rightarrow> dvec3" where
  "vec_scale a s = Vec3 (dmul (vx a) s) (dmul (vy a) s) (dmul (vz a) s)"

definition glm_dot :: "dvec3 \<Rightarrow> dvec3 \<Rightarrow> double" where
  "glm_dot a b = dadd (dadd (dmul (vx a) (vx b)) (dmul (vy a) (vy b))) (dmul (vz a) (vz b))"

definition glm_cross :: "dvec3 \<Rightarrow> dvec3 \<Rightarrow> dvec3" where
  "glm_cross a b =
     Vec3 (dsub (dmul (vy a) (vz b)) (dmul (vy b) (vz a)))
          (dsub (dmul (vz a) (vx b)) (dmul (vz b) (vx a)))
          (dsub (dmul (vx a) (vy b)) (dmul (vx b) (vy a)))"

definition glm_length :: "dvec3 \<Rightarrow> double" where
  "glm_length v = dsqrt (glm_dot v v)"

definition glm_inversesqrt :: "double \<Rightarrow> double" where
  "glm_inversesqrt a = ddiv (Num 1) (dsqrt a)"

definition glm_normalize :: "dvec3 \<Rightarrow> dvec3" where
  "glm_normalize v = vec_scale v (glm_inversesqrt (glm_dot v v))"

section \<open>Data model\<close>

text \<open>
  The headers of \<open>Patch\<close>, \<open>Descriptor\<close>, \<open>Convexity\<close>, \<open>Graph\<close> and \<open>Parameters\<close>
  are not among the source files. The records below hold the members \<open>docker.cpp\<close>
  reads, with the types the specification's data model gives them.
\<close>

text \<open>Modelled from the spec: the convexity classes, \<open>enum{Convex, Concave, Flat/Saddle}\<close>
  of the Vertex entry of the data model; \<open>convexity.h\<close> is missing.\<close>

datatype Convexity = Convex | Concave | Flat

text \<open>\<open>class Node\<close> of \<open>node.h\<close>: the members \<open>pos\<close>, \<open>curvature\<close>, \<open>normal\<close>,
  \<open>type\<close> and the neighbour list \<open>ngbr\<close> (the colour is for rendering only).\<close>

record Node =
  node_pos :: dvec3
  node_curvature :: dvec3
  node_normal :: dvec3
  node_type :: Convexity
  node_ngbr :: "(int \<times> int) list"

text \<open>Modelled from the spec: a patch, \<open>{representativePosition, representativeNormal,
  nodes: ordered sequence of vertex indices}\<close>, read through \<open>get_pos()\<close>, \<open>get_normal()\<close>
  and the member \<open>nodes\<close>; \<open>patch.h\<close> is missing.\<close>

record Patch =
  patch_pos :: dvec3
  patch_normal :: dvec3
  patch_nodes :: "int list"

text \<open>Modelled from the spec: a descriptor, \<open>{curvature: scalar, convexityType: enum}\<close>,
  the members \<open>curv\<close> and \<open>type\<close>; \<open>descriptor.h\<close> is missing.\<close>

record Descriptor =
  desc_curv :: double
  desc_type :: Convexity

type_synonym SurfaceDescriptors = "(Patch \<times> Descriptor) list"

type_synonym MatchingGroup = "(int \<times> int) list"

text \<open>Modelled from the spec: the configuration constants \<open>N_BEST_PAIRS\<close> (top candidates
  kept per target patch) and \<open>G_THRESH\<close> (the grouping threshold, a distance);
  \<open>parameters.h\<close> is missing, so they are parameters of the model. The threshold is a
  number, which covers an integer as well as a floating constant.\<close>

record Parameters =
  N_BEST_PAIRS :: int
  G_THRESH :: real

text \<open>
  What C++ leaves undefined is an error value of the model: reading a vector outside its
  bounds, erasing a range that starts behind the end, converting a double that does not
  fit to \<open>int\<close>, and calling \<open>std::sort\<close> or \<open>std::set\<close> with a comparison that is no
  strict weak ordering on the elements.
\<close>

datatype error = IndexOutOfRange | EraseOutOfRange | IntConversion | CompareNotOrdering

text \<open>\<open>v[i]\<close> on a \<open>std::vector\<close> with an \<open>int\<close> index.\<close>

definition elem_at :: "'a list \<Rightarrow> int \<Rightarrow> error + 'a" where
  "elem_at xs i = (if 0 \<le> i \<and> i < int (length xs) then Inr (xs ! nat i) else Inl IndexOutOfRange)"

section \<open>geodesic_distance\<close>

text \<open>
  The function is declared to return \<open>int\<close>, so the double that \<open>glm::length\<close> returns is
  converted on return: the fractional part is discarded, and the conversion is undefined
  for NaN, an infinity and a value outside the range of a 32-bit \<open>int\<close>.
\<close>

definition double_to_int :: "double \<Rightarrow> error + int" where
  "double_to_int d =
     (case d of
        Num r \<Rightarrow>
          (let k = (if 0 \<le> r then \<lfloor>r\<rfloor> else \<lceil>r\<rceil>)
           in if - 2147483648 \<le> k \<and> k \<le> 2147483647 then Inr k else Inl IntConversion)
      | _ \<Rightarrow> Inl IntConversion)"

definition geodesic_distance :: "int \<Rightarrow> int \<Rightarrow> SurfaceDescriptors \<Rightarrow> error + int" where
  "geodesic_distance lhs_patch_ind rhs_patch_ind desc =
     (case elem_at desc lhs_patch_ind of
        Inl e \<Rightarrow> Inl e
      | Inr lhs \<Rightarrow>
          (case elem_at desc rhs_patch_ind of
             Inl e \<Rightarrow> Inl e
           | Inr rhs \<Rightarrow>
               (let n1 = patch_pos (fst lhs); n2 = patch_pos (fst rhs)
                in double_to_int (glm_length (vec_sub n1 n2)))))"

section \<open>Similarity ranking (lines 94 to 113 of build_matching_groups)\<close>

text \<open>The score of line 101:
  \<open>fabs(t.curv - l.curv) / std::max(t.curv, l.curv)\<close>. Nothing is tested before the
  division.\<close>

definition dissimilarity :: "Descriptor \<Rightarrow> Descriptor \<Rightarrow> double" where
  "dissimilarity t l =
     ddiv (dfabs (dsub (desc_curv t) (desc_curv l))) (dmax (desc_curv t) (desc_curv l))"

text \<open>The loop over the ligand patches, \<open>l\<close> counting from its third argument: a patch of
  another convexity class than the target's contributes the pair of its score and its
  index.\<close>

fun similarity_loop ::
  "Patch \<times> Descriptor \<Rightarrow> SurfaceDescriptors \<Rightarrow> int \<Rightarrow> (double \<times> int) list" where
  "similarity_loop t_patch [] l = []"
| "similarity_loop t_patch (l_patch # rest) l =
     (if desc_type (snd t_patch) \<noteq> desc_type (snd l_patch)
      then (dissimilarity (snd t_patch) (snd l_patch), l) # similarity_loop t_patch rest (l + 1)
      else similarity_loop t_patch rest (l + 1))"

text \<open>\<open>operator<\<close> of \<open>std::pair<double,int>\<close>, as the standards before C++20 define it:
  \<open>a.first < b.first || (!(b.first < a.first) && a.second < b.second)\<close>.\<close>

definition std_pair_less :: "double \<times> int \<Rightarrow> double \<times> int \<Rightarrow> bool" where
  "std_pair_less a b = (dless (fst a) (fst b) \<or> (\<not> dless (fst b) (fst a) \<and> snd a < snd b))"

text \<open>
  The requirement of the standard library on a comparison, on the elements it is applied
  to: irreflexive, transitive, and with a transitive incomparability. \<open>std::sort\<close> and
  \<open>std::set\<close> are undefined without it.
\<close>

definition strict_weak_on :: "('a \<Rightarrow> 'a \<Rightarrow> bool) \<Rightarrow> 'a list \<Rightarrow> bool" where
  "strict_weak_on lt xs =
     (list_all (\<lambda>a. \<not> lt a a) xs \<and>
      list_all (\<lambda>a. list_all (\<lambda>b. list_all (\<lambda>c. lt a b \<and> lt b c \<longrightarrow> lt a c) xs) xs) xs \<and>
      list_all (\<lambda>a. list_all (\<lambda>b. list_all (\<lambda>c.
        \<not> lt a b \<and> \<not> lt b a \<and> \<not> lt b c \<and> \<not> lt c b \<longrightarrow> \<not> lt a c \<and> \<not> lt c a) xs) xs) xs)"

text \<open>
  \<open>std::sort\<close> is given by its contract: the result is the elements in an order where no
  element is less than one before it. The model computes it by insertion. The pairs of a
  similarity list have different indices, so any two of them are comparable and the
  contract leaves one result only (lemma \<open>std_sort_unique\<close> below).
\<close>

fun sort_insert :: "('a \<Rightarrow> 'a \<Rightarrow> bool) \<Rightarrow> 'a \<Rightarrow> 'a list \<Rightarrow> 'a list" where
  "sort_insert lt x [] = [x]"
| "sort_insert lt x (y # ys) = (if lt x y then x # y # ys else y # sort_insert lt x ys)"

definition std_sort :: "('a \<Rightarrow> 'a \<Rightarrow> bool) \<Rightarrow> 'a list \<Rightarrow> error + 'a list" where
  "std_sort lt xs =
     (if strict_weak_on lt xs then Inr (foldr (sort_insert lt) xs []) else Inl CompareNotOrdering)"

text \<open>\<open>v.erase(v.begin() + n, v.end())\<close>: the first \<open>n\<close> elements stay. The iterator
  \<open>v.begin() + n\<close> is valid only for \<open>0 \<le> n \<le> v.size()\<close>.\<close>

definition erase_from :: "'a list \<Rightarrow> int \<Rightarrow> error + 'a list" where
  "erase_from xs n =
     (if 0 \<le> n \<and> n \<le> int (length xs) then Inr (take (nat n) xs) else Inl EraseOutOfRange)"

text \<open>Lines 94 to 113: build the similarity list of the target patch, sort it, erase
  everything from position \<open>N_BEST_PAIRS\<close> on.\<close>

definition ranked_candidates ::
  "Parameters \<Rightarrow> Patch \<times> Descriptor \<Rightarrow> SurfaceDescriptors \<Rightarrow> error + (double \<times> int) list" where
  "ranked_candidates P t_patch desc_ligand =
     (case std_sort std_pair_less (similarity_loop t_patch desc_ligand 0) of
        Inl e \<Rightarrow> Inl e
      | Inr similarity_list \<Rightarrow> erase_from similarity_list (N_BEST_PAIRS P))"

section \<open>Grouping (lines 116 to 149 of build_matching_groups)\<close>

text \<open>The loop of lines 128 to 132 over the pairs of one group. It visits every pair (there
  is no early exit) and clears \<open>grouping_crit\<close> when a distance exceeds \<open>G_THRESH\<close>.\<close>

fun grouping_crit ::
  "Parameters \<Rightarrow> SurfaceDescriptors \<Rightarrow> SurfaceDescriptors \<Rightarrow> int \<times> int \<Rightarrow>
   MatchingGroup \<Rightarrow> bool \<Rightarrow> error + bool" where
  "grouping_crit P desc_target desc_ligand cur_pair [] crit = Inr crit"
| "grouping_crit P desc_target desc_ligand cur_pair (pair # rest) crit =
     (case geodesic_distance (fst cur_pair) (fst pair) desc_target of
        Inl e \<Rightarrow> Inl e
      | Inr d1 \<Rightarrow>
          (case geodesic_distance (snd cur_pair) (snd pair) desc_ligand of
             Inl e \<Rightarrow> Inl e
           | Inr d2 \<Rightarrow>
               (let crit1 = (if G_THRESH P < real_of_int d1 then False else crit);
                    crit2 = (if G_THRESH P < real_of_int d2 then False else crit1)
                in grouping_crit P desc_target desc_ligand cur_pair rest crit2)))"

text \<open>The loop of lines 123 to 140 over the groups: a group whose criterion holds gets
  \<open>cur_pair\<close> at its end, and \<open>added\<close> is set.\<close>

fun groups_loop ::
  "Parameters \<Rightarrow> SurfaceDescriptors \<Rightarrow> SurfaceDescriptors \<Rightarrow> int \<times> int \<Rightarrow>
   MatchingGroup list \<Rightarrow> bool \<Rightarrow> error + (MatchingGroup list \<times> bool)" where
  "groups_loop P desc_target desc_ligand cur_pair [] added = Inr ([], added)"
| "groups_loop P desc_target desc_ligand cur_pair (grp # rest) added =
     (case grouping_crit P desc_target desc_ligand cur_pair grp True of
        Inl e \<Rightarrow> Inl e
      | Inr crit \<Rightarrow>
          (case groups_loop P desc_target desc_ligand cur_pair rest (if crit then True else added) of
             Inl e \<Rightarrow> Inl e
           | Inr (rest', added') \<Rightarrow> Inr ((if crit then grp @ [cur_pair] else grp) # rest', added')))"

text \<open>The body of the loop of line 116 for one pair: lines 118 to 148.\<close>

definition group_pair ::
  "Parameters \<Rightarrow> SurfaceDescriptors \<Rightarrow> SurfaceDescriptors \<Rightarrow> int \<times> int \<Rightarrow>
   MatchingGroup list \<Rightarrow> error + MatchingGroup list" where
  "group_pair P desc_target desc_ligand cur_pair groups_out =
     (case groups_loop P desc_target desc_ligand cur_pair groups_out False of
        Inl e \<Rightarrow> Inl e
      | Inr (groups', added) \<Rightarrow> Inr (if \<not> added then groups' @ [[cur_pair]] else groups'))"

text \<open>The loop of line 116 over the kept candidates of target patch \<open>t\<close>, in their order.\<close>

fun candidates_loop ::
  "Parameters \<Rightarrow> SurfaceDescriptors \<Rightarrow> SurfaceDescriptors \<Rightarrow> int \<Rightarrow> (double \<times> int) list \<Rightarrow>
   MatchingGroup list \<Rightarrow> error + MatchingGroup list" where
  "candidates_loop P desc_target desc_ligand t [] groups_out = Inr groups_out"
| "candidates_loop P desc_target desc_ligand t (lig # rest) groups_out =
     (case group_pair P desc_target desc_ligand (t, snd lig) groups_out of
        Inl e \<Rightarrow> Inl e
      | Inr groups' \<Rightarrow> candidates_loop P desc_target desc_ligand t rest groups')"

text \<open>The body of the loop of line 86 for the target patch \<open>t\<close>.\<close>

definition target_step ::
  "Parameters \<Rightarrow> SurfaceDescriptors \<Rightarrow> SurfaceDescriptors \<Rightarrow> int \<Rightarrow>
   MatchingGroup list \<Rightarrow> error + MatchingGroup list" where
  "target_step P desc_target desc_ligand t groups_out =
     (case elem_at desc_target t of
        Inl e \<Rightarrow> Inl e
      | Inr t_patch \<Rightarrow>
          (case ranked_candidates P t_patch desc_ligand of
             Inl e \<Rightarrow> Inl e
           | Inr similarity_list \<Rightarrow>
               candidates_loop P desc_target desc_ligand t similarity_list groups_out))"

text \<open>The loop of line 86 over the indices of the target patches.\<close>

fun targets_loop ::
  "Parameters \<Rightarrow> SurfaceDescriptors \<Rightarrow> SurfaceDescriptors \<Rightarrow> int list \<Rightarrow>
   MatchingGroup list \<Rightarrow> error + MatchingGroup list" where
  "targets_loop P desc_target desc_ligand [] groups_out = Inr groups_out"
| "targets_loop P desc_target desc_ligand (t # ts) groups_out =
     (case target_step P desc_target desc_ligand t groups_out of
        Inl e \<Rightarrow> Inl e
      | Inr groups' \<Rightarrow> targets_loop P desc_target desc_ligand ts groups')"

text \<open>\<open>Docker::build_matching_groups\<close>: \<open>t\<close> runs from 0 to \<open>desc_target.size() - 1\<close>, and
  \<open>groups_out\<close> is the caller's vector, taken as it is and returned updated.\<close>

definition build_matching_groups ::
  "Parameters \<Rightarrow> SurfaceDescriptors \<Rightarrow> SurfaceDescriptors \<Rightarrow> MatchingGroup list \<Rightarrow>
   error + MatchingGroup list" where
  "build_matching_groups P desc_target desc_ligand groups_out =
     targets_loop P desc_target desc_ligand (map int [0..<length desc_target]) groups_out"

section \<open>The cloud of a group (build_cloud_from_group)\<close>

text \<open>Modelled from the spec: the mesh is an ordered collection of vertices that
  exposes vertex lookup by index; \<open>graph.h\<close> is missing. \<open>get_node\<close> outside
  the collection is an error of the model.\<close>

type_synonym Graph = "Node list"

definition get_node :: "Graph \<Rightarrow> int \<Rightarrow> error + Node" where
  "get_node g i = elem_at g i"

text \<open>\<open>comp_point\<close>, lines 31 to 39: the first coordinate in which the points differ
  decides.\<close>

definition comp_point :: "dvec3 \<Rightarrow> dvec3 \<Rightarrow> bool" where
  "comp_point lhs rhs =
     (if \<not> deq (vx lhs) (vx rhs) then dless (vx lhs) (vx rhs)
      else if \<not> deq (vy lhs) (vy rhs) then dless (vy lhs) (vy rhs)
      else if \<not> deq (vz lhs) (vz rhs) then dless (vz lhs) (vz rhs)
      else False)"

text \<open>
  A \<open>std::set\<close> with a comparison is the list of its elements in iteration order.
  \<open>insert\<close> puts the element before the first one it is less than, and does nothing
  when it meets an element that it is neither less nor greater than.
\<close>

fun set_insert :: "('a \<Rightarrow> 'a \<Rightarrow> bool) \<Rightarrow> 'a \<Rightarrow> 'a list \<Rightarrow> 'a list" where
  "set_insert lt x [] = [x]"
| "set_insert lt x (y # ys) =
     (if lt x y then x # y # ys
      else if lt y x then y # set_insert lt x ys
      else y # ys)"

definition std_set_insert :: "('a \<Rightarrow> 'a \<Rightarrow> bool) \<Rightarrow> 'a \<Rightarrow> 'a list \<Rightarrow> error + 'a list" where
  "std_set_insert lt x s =
     (if strict_weak_on lt (x # s) then Inr (set_insert lt x s) else Inl CompareNotOrdering)"

text \<open>The loop of lines 65 and 66 over the vertex indices of one patch.\<close>

fun insert_patch_nodes :: "Graph \<Rightarrow> int list \<Rightarrow> dvec3 list \<Rightarrow> error + dvec3 list" where
  "insert_patch_nodes target [] cloud = Inr cloud"
| "insert_patch_nodes target (p # ps) cloud =
     (case get_node target p of
        Inl e \<Rightarrow> Inl e
      | Inr n \<Rightarrow>
          (case std_set_insert comp_point (node_pos n) cloud of
             Inl e \<Rightarrow> Inl e
           | Inr cloud' \<Rightarrow> insert_patch_nodes target ps cloud'))"

text \<open>The loop of lines 57 to 67 over the patch indices of the group, on the set and the
  accumulated normal.\<close>

fun cloud_loop ::
  "SurfaceDescriptors \<Rightarrow> Graph \<Rightarrow> int list \<Rightarrow> dvec3 list \<Rightarrow> dvec3 \<Rightarrow>
   error + (dvec3 list \<times> dvec3)" where
  "cloud_loop descriptors target [] cloud avg_normal = Inr (cloud, avg_normal)"
| "cloud_loop descriptors target (desc_pair # rest) cloud avg_normal =
     (case elem_at descriptors desc_pair of
        Inl e \<Rightarrow> Inl e
      | Inr d \<Rightarrow>
          (let patch = fst d; avg_normal' = vec_add avg_normal (patch_normal patch)
           in case insert_patch_nodes target (patch_nodes patch) cloud of
                Inl e \<Rightarrow> Inl e
              | Inr cloud' \<Rightarrow> cloud_loop descriptors target rest cloud' avg_normal'))"

text \<open>\<open>build_cloud_from_group\<close> (\<open>grp\<close> is the parameter \<open>group\<close>): the result is the pair of \<open>cloud_out\<close> and
  \<open>avg_normal\<close>. Line 73 scales the sum by \<open>1.0 / group.size()\<close> and normalizes; nothing
  is tested before.\<close>

definition build_cloud_from_group ::
  "int list \<Rightarrow> SurfaceDescriptors \<Rightarrow> Graph \<Rightarrow> error + (dvec3 list \<times> dvec3)" where
  "build_cloud_from_group grp descriptors target =
     (case cloud_loop descriptors target grp [] (Vec3 (Num 0) (Num 0) (Num 0)) of
        Inl e \<Rightarrow> Inl e
      | Inr (cloud, avg_normal) \<Rightarrow>
          Inr (cloud,
               glm_normalize (vec_scale avg_normal (ddiv (Num 1) (Num (real (length grp)))))))"

section \<open>The transformation of a group (transformations_from_matching_groups)\<close>

text \<open>
  \<open>glm::dvec4\<close>, \<open>glm::dmat4\<close> (four columns) and \<open>glm::dquat\<close>, with the operations the
  function calls, each as glm computes it: \<open>translate(m, v)\<close> replaces the last column
  of \<open>m\<close> by \<open>m[0] * v[0] + m[1] * v[1] + m[2] * v[2] + m[3]\<close>; the product of two
  matrices has the columns \<open>A[0] * B[j][0] + A[1] * B[j][1] + A[2] * B[j][2] + A[3] * B[j][3]\<close>;
  \<open>mat4_cast\<close> fills the upper left 3x3 block from the products of the quaternion's
  components, without normalizing the quaternion.
\<close>

datatype dvec4 = Vec4 (v4x: double) (v4y: double) (v4z: double) (v4w: double)

datatype dmat4 = Mat4 (col0: dvec4) (col1: dvec4) (col2: dvec4) (col3: dvec4)

datatype dquat = Quat (qw: double) (qx: double) (qy: double) (qz: double)

definition vec4_add :: "dvec4 \<Rightarrow> dvec4 \<Rightarrow> dvec4" where
  "vec4_add a b =
     Vec4 (dadd (v4x a) (v4x b)) (dadd (v4y a) (v4y b)) (dadd (v4z a) (v4z b)) (dadd (v4w a) (v4w b))"

definition vec4_scale :: "dvec4 \<Rightarrow> double \<Rightarrow> dvec4" where
  "vec4_scale a s = Vec4 (dmul (v4x a) s) (dmul (v4y a) s) (dmul (v4z a) s) (dmul (v4w a) s)"

text \<open>\<open>glm::dmat4(1.0)\<close>.\<close>

definition mat4_identity :: dmat4 where
  "mat4_identity =
     Mat4 (Vec4 (Num 1) (Num 0) (Num 0) (Num 0)) (Vec4 (Num 0) (Num 1) (Num 0) (Num 0))
          (Vec4 (Num 0) (Num 0) (Num 1) (Num 0)) (Vec4 (Num 0) (Num 0) (Num 0) (Num 1))"

definition glm_translate :: "dmat4 \<Rightarrow> dvec3 \<Rightarrow> dmat4" where
  "glm_translate m v =
     Mat4 (col0 m) (col1 m) (col2 m)
       (vec4_add (vec4_add (vec4_add (vec4_scale (col0 m) (vx v)) (vec4_scale (col1 m) (vy v)))
                           (vec4_scale (col2 m) (vz v)))
                 (col3 m))"

definition mat4_apply :: "dmat4 \<Rightarrow> dvec4 \<Rightarrow> dvec4" where
  "mat4_apply a v =
     vec4_add (vec4_add (vec4_add (vec4_scale (col0 a) (v4x v)) (vec4_scale (col1 a) (v4y v)))
                        (vec4_scale (col2 a) (v4z v)))
              (vec4_scale (col3 a) (v4w v))"

definition mat4_mul :: "dmat4 \<Rightarrow> dmat4 \<Rightarrow> dmat4" where
  "mat4_mul a b =
     Mat4 (mat4_apply a (col0 b)) (mat4_apply a (col1 b)) (mat4_apply a (col2 b))
          (mat4_apply a (col3 b))"

definition mat4_cast :: "dquat \<Rightarrow> dmat4" where
  "mat4_cast q =
     (let qxx = dmul (qx q) (qx q); qyy = dmul (qy q) (qy q); qzz = dmul (qz q) (qz q);
          qxz = dmul (qx q) (qz q); qxy = dmul (qx q) (qy q); qyz = dmul (qy q) (qz q);
          qwx = dmul (qw q) (qx q); qwy = dmul (qw q) (qy q); qwz = dmul (qw q) (qz q)
      in Mat4
           (Vec4 (dsub (Num 1) (dmul (Num 2) (dadd qyy qzz)))
                 (dmul (Num 2) (dadd qxy qwz))
                 (dmul (Num 2) (dsub qxz qwy))
                 (Num 0))
           (Vec4 (dmul (Num 2) (dsub qxy qwz))
                 (dsub (Num 1) (dmul (Num 2) (dadd qxx qzz)))
                 (dmul (Num 2) (dadd qyz qwx))
                 (Num 0))
           (Vec4 (dmul (Num 2) (dadd qxz qwy))
                 (dmul (Num 2) (dsub qyz qwx))
                 (dsub (Num 1) (dmul (Num 2) (dadd qxx qyy)))
                 (Num 0))
           (Vec4 (Num 0) (Num 0) (Num 0) (Num 1)))"

text \<open>
  Steps 4 and 5 of the loop body, lines 197 to 213, as a function of the two centroids and
  the two average normals: the axis, the angle, the quaternion, its matrix, and the
  composition with the two translations. Nothing is tested on the way.
\<close>

definition final_transformation :: "dvec3 \<Rightarrow> dvec3 \<Rightarrow> dvec3 \<Rightarrow> dvec3 \<Rightarrow> dmat4" where
  "final_transformation target_centroid ligand_centroid ligand_normal target_normal =
     (let rot_axle = glm_cross ligand_normal target_normal;
          rot_angle = ddiv (dadd (dacos (glm_dot ligand_normal target_normal)) (Num pi)) (Num 2);
          rot_cos = dcos rot_angle;
          rot_sin = dsin rot_angle;
          quat_align_normals =
            Quat rot_cos (dmul (vx rot_axle) rot_sin) (dmul (vy rot_axle) rot_sin)
                 (dmul (vz rot_axle) rot_sin);
          align_normals = mat4_cast quat_align_normals;
          final_t =
            mat4_mul (mat4_mul (glm_translate mat4_identity target_centroid) align_normals)
                     (glm_translate mat4_identity (vec_neg ligand_centroid))
      in final_t)"

text \<open>
  \<open>cloud_centroid\<close> is declared in \<open>inc/math/linalg.h\<close>, which is missing: it is a
  parameter of the model, a function from a cloud to a point.

  The body of the loop of line 165 for one matching group \<open>MG\<close>: lines 167 to 213. The
  lists \<open>target_groups\<close> and \<open>ligand_groups\<close> of lines 168 to 173 are the first and the
  second components of the pairs, in order.
\<close>

definition group_transformation ::
  "(dvec3 list \<Rightarrow> dvec3) \<Rightarrow> Graph \<Rightarrow> SurfaceDescriptors \<Rightarrow> Graph \<Rightarrow> SurfaceDescriptors \<Rightarrow>
   MatchingGroup \<Rightarrow> error + dmat4" where
  "group_transformation cloud_centroid target desc_target ligand desc_ligand MG =
     (let target_groups = map fst MG; ligand_groups = map snd MG
      in case build_cloud_from_group target_groups desc_target target of
           Inl e \<Rightarrow> Inl e
         | Inr (target_cloud, target_normal) \<Rightarrow>
             (case build_cloud_from_group ligand_groups desc_ligand ligand of
                Inl e \<Rightarrow> Inl e
              | Inr (ligand_cloud, ligand_normal) \<Rightarrow>
                  (let target_centroid = cloud_centroid target_cloud;
                       ligand_centroid = cloud_centroid ligand_cloud
                   in Inr (final_transformation target_centroid ligand_centroid
                             ligand_normal target_normal))))"

text \<open>The loop of line 165: one \<open>push_back\<close> on \<open>mg_transformation\<close> per group.\<close>

fun transformations_loop ::
  "(dvec3 list \<Rightarrow> dvec3) \<Rightarrow> Graph \<Rightarrow> SurfaceDescriptors \<Rightarrow> Graph \<Rightarrow> SurfaceDescriptors \<Rightarrow>
   MatchingGroup list \<Rightarrow> dmat4 list \<Rightarrow> error + dmat4 list" where
  "transformations_loop cloud_centroid target desc_target ligand desc_ligand [] mg_transformation =
     Inr mg_transformation"
| "transformations_loop cloud_centroid target desc_target ligand desc_ligand (MG # rest)
     mg_transformation =
     (case group_transformation cloud_centroid target desc_target ligand desc_ligand MG of
        Inl e \<Rightarrow> Inl e
      | Inr final_t \<Rightarrow>
          transformations_loop cloud_centroid target desc_target ligand desc_ligand rest
            (mg_transformation @ [final_t]))"

text \<open>\<open>Docker::transformations_from_matching_groups\<close>: \<open>mg_transformation\<close> is the caller's
  vector, taken as it is and returned updated.\<close>

definition transformations_from_matching_groups ::
  "(dvec3 list \<Rightarrow> dvec3) \<Rightarrow> MatchingGroup list \<Rightarrow> Graph \<Rightarrow> SurfaceDescriptors \<Rightarrow> Graph \<Rightarrow>
   SurfaceDescriptors \<Rightarrow> dmat4 list \<Rightarrow> error + dmat4 list" where
  "transformations_from_matching_groups cloud_centroid matching_groups target desc_target
     ligand desc_ligand mg_transformation =
     transformations_loop cloud_centroid target desc_target ligand desc_ligand matching_groups
       mg_transformation"

section \<open>The grouping criterion, as the specification words it\<close>

text \<open>
  The pair \<open>cur\<close> is within the threshold of a pair of a group when both distances, of
  the target patches and of the ligand patches, are defined and at most \<open>G_THRESH\<close>. The
  criterion holds for a group when \<open>cur\<close> is within the threshold of every pair in it.
\<close>

definition within_thresh ::
  "Parameters \<Rightarrow> SurfaceDescriptors \<Rightarrow> SurfaceDescriptors \<Rightarrow> int \<times> int \<Rightarrow> int \<times> int \<Rightarrow> bool" where
  "within_thresh P desc_target desc_ligand cur pair =
     (case geodesic_distance (fst cur) (fst pair) desc_target of
        Inl e \<Rightarrow> False
      | Inr d1 \<Rightarrow>
          (case geodesic_distance (snd cur) (snd pair) desc_ligand of
             Inl e \<Rightarrow> False
           | Inr d2 \<Rightarrow> real_of_int d1 \<le> G_THRESH P \<and> real_of_int d2 \<le> G_THRESH P))"

definition criterion_holds ::
  "Parameters \<Rightarrow> SurfaceDescriptors \<Rightarrow> SurfaceDescriptors \<Rightarrow> int \<times> int \<Rightarrow> MatchingGroup \<Rightarrow> bool" where
  "criterion_holds P desc_target desc_ligand cur grp =
     list_all (within_thresh P desc_target desc_ligand cur) grp"

text \<open>The step of the Group Builder for one pair: the pair is appended to every group
  for which the criterion holds; if there is none, a new group of that pair alone is
  appended to the list.\<close>

definition spec_group_pair ::
  "Parameters \<Rightarrow> SurfaceDescriptors \<Rightarrow> SurfaceDescriptors \<Rightarrow> int \<times> int \<Rightarrow>
   MatchingGroup list \<Rightarrow> MatchingGroup list" where
  "spec_group_pair P desc_target desc_ligand cur groups =
     (if list_ex (criterion_holds P desc_target desc_ligand cur) groups
      then map (\<lambda>g. if criterion_holds P desc_target desc_ligand cur g then g @ [cur] else g) groups
      else groups @ [[cur]])"

text \<open>
  A group \<open>grp\<close> grew out of \<open>old\<close> by insertions under the criterion: \<open>old\<close> is its
  beginning, and every later pair is within the threshold of all pairs before it.
\<close>

definition inserted_within ::
  "Parameters \<Rightarrow> SurfaceDescriptors \<Rightarrow> SurfaceDescriptors \<Rightarrow> MatchingGroup \<Rightarrow> MatchingGroup \<Rightarrow> bool" where
  "inserted_within P desc_target desc_ligand old grp =
     (prefix old grp \<and>
      (\<forall>j < length grp. length old \<le> j \<longrightarrow>
         (\<forall>k < j. within_thresh P desc_target desc_ligand (grp ! j) (grp ! k))))"

text \<open>The list \<open>out\<close> grew out of \<open>init\<close>: the groups of \<open>init\<close> are at their indices,
  each grown by insertions under the criterion, and the groups behind them grew out of
  the empty group and are not empty.\<close>

definition groups_grown ::
  "Parameters \<Rightarrow> SurfaceDescriptors \<Rightarrow> SurfaceDescriptors \<Rightarrow> MatchingGroup list \<Rightarrow>
   MatchingGroup list \<Rightarrow> bool" where
  "groups_grown P desc_target desc_ligand init out =
     (length init \<le> length out \<and>
      (\<forall>i < length out.
         if i < length init then inserted_within P desc_target desc_ligand (init ! i) (out ! i)
         else out ! i \<noteq> [] \<and> inserted_within P desc_target desc_ligand [] (out ! i)))"

text \<open>
  The pairs that \<open>build_matching_groups\<close> processes, in the order in which it processes
  them: for the target patches in index order, the kept candidates of the patch in ranked
  order.
\<close>

definition ranked_pairs_of ::
  "Parameters \<Rightarrow> SurfaceDescriptors \<Rightarrow> SurfaceDescriptors \<Rightarrow> int \<Rightarrow> (int \<times> int) list" where
  "ranked_pairs_of P desc_target desc_ligand t =
     (case elem_at desc_target t of
        Inl e \<Rightarrow> []
      | Inr t_patch \<Rightarrow>
          (case ranked_candidates P t_patch desc_ligand of
             Inl e \<Rightarrow> []
           | Inr kept \<Rightarrow> map (\<lambda>lig. (t, snd lig)) kept))"

definition ranked_pairs ::
  "Parameters \<Rightarrow> SurfaceDescriptors \<Rightarrow> SurfaceDescriptors \<Rightarrow> (int \<times> int) list" where
  "ranked_pairs P desc_target desc_ligand =
     concat (map (ranked_pairs_of P desc_target desc_ligand) (map int [0..<length desc_target]))"

section \<open>The transformation of a group, as the specification words it\<close>

text \<open>
  The specification's description of the matrix, on real numbers and without the
  operations of glm. The rotation angle is \<open>(acos(dot(ligandNormal, targetNormal)) + pi) / 2\<close>,
  the axis is the cross product of the ligand normal and the target normal, the quaternion
  has the scalar part \<open>cos(angle)\<close> and the vector part \<open>axis * sin(angle)\<close>, the matrix of a
  quaternion \<open>(w, x, y, z)\<close> has the columns
  \<open>(1 - 2(yy + zz), 2(xy + wz), 2(xz - wy))\<close>, \<open>(2(xy - wz), 1 - 2(xx + zz), 2(yz + wx))\<close>
  and \<open>(2(xz + wy), 2(yz - wx), 1 - 2(xx + yy))\<close>, and
  \<open>translate(targetCentroid) * M * translate(-ligandCentroid)\<close> is the matrix of the map
  that sends a point \<open>p\<close> to \<open>targetCentroid + M (p - ligandCentroid)\<close>.
\<close>

datatype rvec3 = RVec3 (rx: real) (ry: real) (rz: real)

datatype rquat = RQuat (rw: real) (rvec: rvec3)

datatype rmat3 = RMat3 (rcol0: rvec3) (rcol1: rvec3) (rcol2: rvec3)

definition rdot :: "rvec3 \<Rightarrow> rvec3 \<Rightarrow> real" where
  "rdot a b = rx a * rx b + ry a * ry b + rz a * rz b"

definition rcross :: "rvec3 \<Rightarrow> rvec3 \<Rightarrow> rvec3" where
  "rcross a b =
     RVec3 (ry a * rz b - ry b * rz a) (rz a * rx b - rz b * rx a) (rx a * ry b - rx b * ry a)"

definition rscale :: "rvec3 \<Rightarrow> real \<Rightarrow> rvec3" where
  "rscale a s = RVec3 (rx a * s) (ry a * s) (rz a * s)"

definition radd :: "rvec3 \<Rightarrow> rvec3 \<Rightarrow> rvec3" where
  "radd a b = RVec3 (rx a + rx b) (ry a + ry b) (rz a + rz b)"

definition rsub :: "rvec3 \<Rightarrow> rvec3 \<Rightarrow> rvec3" where
  "rsub a b = RVec3 (rx a - rx b) (ry a - ry b) (rz a - rz b)"

definition spec_rotation_angle :: "rvec3 \<Rightarrow> rvec3 \<Rightarrow> real" where
  "spec_rotation_angle ligand_normal target_normal =
     (arccos (rdot ligand_normal target_normal) + pi) / 2"

definition spec_quaternion :: "rvec3 \<Rightarrow> rvec3 \<Rightarrow> rquat" where
  "spec_quaternion ligand_normal target_normal =
     (let angle = spec_rotation_angle ligand_normal target_normal;
          axis = rcross ligand_normal target_normal
      in RQuat (cos angle) (rscale axis (sin angle)))"

definition quaternion_norm2 :: "rquat \<Rightarrow> real" where
  "quaternion_norm2 q = rw q * rw q + rdot (rvec q) (rvec q)"

definition quaternion_matrix :: "rquat \<Rightarrow> rmat3" where
  "quaternion_matrix q =
     (let w = rw q; x = rx (rvec q); y = ry (rvec q); z = rz (rvec q)
      in RMat3
           (RVec3 (1 - 2 * (y * y + z * z)) (2 * (x * y + w * z)) (2 * (x * z - w * y)))
           (RVec3 (2 * (x * y - w * z)) (1 - 2 * (x * x + z * z)) (2 * (y * z + w * x)))
           (RVec3 (2 * (x * z + w * y)) (2 * (y * z - w * x)) (1 - 2 * (x * x + y * y))))"

text \<open>The product of a matrix and a vector.\<close>

definition rapply :: "rmat3 \<Rightarrow> rvec3 \<Rightarrow> rvec3" where
  "rapply m v =
     radd (radd (rscale (rcol0 m) (rx v)) (rscale (rcol1 m) (ry v))) (rscale (rcol2 m) (rz v))"

text \<open>A rotation matrix has columns of length one that are orthogonal to each other.\<close>

definition orthonormal :: "rmat3 \<Rightarrow> bool" where
  "orthonormal m =
     (rdot (rcol0 m) (rcol0 m) = 1 \<and> rdot (rcol1 m) (rcol1 m) = 1 \<and> rdot (rcol2 m) (rcol2 m) = 1
      \<and> rdot (rcol0 m) (rcol1 m) = 0 \<and> rdot (rcol0 m) (rcol2 m) = 0
      \<and> rdot (rcol1 m) (rcol2 m) = 0)"

text \<open>The numbers as doubles: a vector, a point in homogeneous coordinates, and the 4x4
  matrix of the map that sends \<open>p\<close> to \<open>m p + t\<close>.\<close>

definition num_vec :: "rvec3 \<Rightarrow> dvec3" where
  "num_vec v = Vec3 (Num (rx v)) (Num (ry v)) (Num (rz v))"

definition num_point :: "rvec3 \<Rightarrow> dvec4" where
  "num_point v = Vec4 (Num (rx v)) (Num (ry v)) (Num (rz v)) (Num 1)"

definition num_direction :: "rvec3 \<Rightarrow> dvec4" where
  "num_direction v = Vec4 (Num (rx v)) (Num (ry v)) (Num (rz v)) (Num 0)"

definition affine_matrix :: "rmat3 \<Rightarrow> rvec3 \<Rightarrow> dmat4" where
  "affine_matrix m t =
     Mat4 (num_direction (rcol0 m)) (num_direction (rcol1 m)) (num_direction (rcol2 m))
          (num_point t)"

definition spec_transformation :: "rvec3 \<Rightarrow> rvec3 \<Rightarrow> rvec3 \<Rightarrow> rvec3 \<Rightarrow> dmat4" where
  "spec_transformation target_centroid ligand_centroid ligand_normal target_normal =
     (let m = quaternion_matrix (spec_quaternion ligand_normal target_normal)
      in affine_matrix m (rsub target_centroid (rapply m ligand_centroid)))"

section \<open>The positions of a group\<close>

text \<open>A point none of whose coordinates is NaN, and the set of the vertex positions that
  are reachable from a group: the positions of the vertices of its member patches.\<close>

definition no_nan :: "dvec3 \<Rightarrow> bool" where
  "no_nan v = (vx v \<noteq> NaN \<and> vy v \<noteq> NaN \<and> vz v \<noteq> NaN)"

definition group_positions :: "int list \<Rightarrow> SurfaceDescriptors \<Rightarrow> Graph \<Rightarrow> dvec3 set" where
  "group_positions grp descriptors target =
     (\<Union>i \<in> set grp. (\<lambda>p. node_pos (target ! nat p)) ` set (patch_nodes (fst (descriptors ! nat i))))"

text \<open>The invariant of the set while it is filled: in strictly ascending order of
  \<open>comp_point\<close>, and without NaN.\<close>

definition cloud_ok :: "dvec3 list \<Rightarrow> bool" where
  "cloud_ok s = (sorted_wrt comp_point s \<and> (\<forall>v \<in> set s. no_nan v))"

section \<open>Inputs on which the functions return\<close>

text \<open>
  A pair of patch indices is in range of the two descriptor lists; all distances between
  patches of a list are defined (the positions are numbers, close enough for the length to
  fit an \<open>int\<close>); the vertex indices of all patches are in range of the mesh and no vertex
  position has a NaN coordinate.
\<close>

definition in_range :: "SurfaceDescriptors \<Rightarrow> SurfaceDescriptors \<Rightarrow> int \<times> int \<Rightarrow> bool" where
  "in_range desc_target desc_ligand p =
     (0 \<le> fst p \<and> fst p < int (length desc_target) \<and>
      0 \<le> snd p \<and> snd p < int (length desc_ligand))"

definition distances_fit :: "SurfaceDescriptors \<Rightarrow> bool" where
  "distances_fit desc =
     (\<forall>i j. 0 \<le> i \<and> i < int (length desc) \<and> 0 \<le> j \<and> j < int (length desc) \<longrightarrow>
        (\<exists>d. geodesic_distance i j desc = Inr d))"

definition mesh_ok :: "SurfaceDescriptors \<Rightarrow> Graph \<Rightarrow> bool" where
  "mesh_ok descriptors target =
     ((\<forall>d \<in> set descriptors. \<forall>n \<in> set (patch_nodes (fst d)). 0 \<le> n \<and> n < int (length target))
      \<and> (\<forall>node \<in> set target. no_nan (node_pos node)))"

text \<open>The indices of a group are in range: its patch indices in range of the descriptor
  list, and the vertex indices of its patches in range of the mesh.\<close>

definition group_in_range :: "int list \<Rightarrow> SurfaceDescriptors \<Rightarrow> Graph \<Rightarrow> bool" where
  "group_in_range grp descriptors target =
     (\<forall>i \<in> set grp. 0 \<le> i \<and> i < int (length descriptors) \<and>
        (\<forall>p \<in> set (patch_nodes (fst (descriptors ! nat i))). 0 \<le> p \<and> p < int (length target)))"

section \<open>Example surfaces\<close>

text \<open>Small descriptor lists on which the functions are evaluated below.\<close>

definition vec3 :: "real \<Rightarrow> real \<Rightarrow> real \<Rightarrow> dvec3" where
  "vec3 a b c = Vec3 (Num a) (Num b) (Num c)"

definition patch_at :: "dvec3 \<Rightarrow> dvec3 \<Rightarrow> int list \<Rightarrow> Patch" where
  "patch_at p n ns = \<lparr>patch_pos = p, patch_normal = n, patch_nodes = ns\<rparr>"

definition descriptor :: "double \<Rightarrow> Convexity \<Rightarrow> Descriptor" where
  "descriptor c t = \<lparr>desc_curv = c, desc_type = t\<rparr>"

text \<open>Two patches on the x axis, one and a half units apart, of curvatures 1 and 2.\<close>

definition first_patch :: "Convexity \<Rightarrow> Patch \<times> Descriptor" where
  "first_patch t = (patch_at (vec3 0 0 0) (vec3 0 0 1) [], descriptor (Num 1) t)"

definition second_patch :: "Convexity \<Rightarrow> Patch \<times> Descriptor" where
  "second_patch t = (patch_at (vec3 (3 / 2) 0 0) (vec3 0 0 1) [], descriptor (Num 2) t)"

definition two_patches :: "Convexity \<Rightarrow> SurfaceDescriptors" where
  "two_patches t = [first_patch t, second_patch t]"

text \<open>One candidate per target patch, and a threshold of two units.\<close>

definition near_params :: Parameters where
  "near_params = \<lparr>N_BEST_PAIRS = 1, G_THRESH = 2\<rparr>"

text \<open>One patch of curvature zero.\<close>

definition zero_curvature_patch :: "Convexity \<Rightarrow> Patch \<times> Descriptor" where
  "zero_curvature_patch t = (patch_at (vec3 0 0 0) (vec3 0 0 1) [], descriptor (Num 0) t)"

text \<open>Two patches whose representative normals are opposite.\<close>

definition opposite_normals :: SurfaceDescriptors where
  "opposite_normals =
     [(patch_at (vec3 0 0 0) (vec3 0 0 1) [], descriptor (Num 1) Convex),
      (patch_at (vec3 1 0 0) (vec3 0 0 (- 1)) [], descriptor (Num 1) Convex)]"

text \<open>A mesh of three vertices at height \<open>h\<close>, and two patches that share vertex 1.\<close>

definition node_at :: "dvec3 \<Rightarrow> Node" where
  "node_at p = \<lparr>node_pos = p, node_curvature = vec3 0 0 0, node_normal = vec3 0 0 1,
                node_type = Flat, node_ngbr = []\<rparr>"

definition triangle_mesh :: "real \<Rightarrow> Graph" where
  "triangle_mesh h = [node_at (vec3 0 0 h), node_at (vec3 2 0 h), node_at (vec3 0 2 h)]"

definition edge_patches :: "Convexity \<Rightarrow> SurfaceDescriptors" where
  "edge_patches t =
     [(patch_at (vec3 1 0 0) (vec3 0 0 1) [0, 1], descriptor (Num 1) t),
      (patch_at (vec3 1 1 0) (vec3 0 0 1) [1, 2], descriptor (Num 2) t)]"

text \<open>Modelled from the spec: the centroid of a cloud is the arithmetic mean of all its
  points. It stands for \<open>cloud_centroid\<close> of the missing \<open>linalg.h\<close> where a function is
  evaluated on the example.\<close>

definition mean_point :: "dvec3 list \<Rightarrow> dvec3" where
  "mean_point cloud =
     vec_scale (foldl vec_add (Vec3 (Num 0) (Num 0) (Num 0)) cloud)
       (ddiv (Num 1) (Num (real (length cloud))))"

text \<open>The matrix of the translation by \<open>(a, b, c)\<close>.\<close>

definition translation :: "real \<Rightarrow> real \<Rightarrow> real \<Rightarrow> dmat4" where
  "translation a b c =
     Mat4 (Vec4 (Num 1) (Num 0) (Num 0) (Num 0)) (Vec4 (Num 0) (Num 1) (Num 0) (Num 0))
          (Vec4 (Num 0) (Num 0) (Num 1) (Num 0)) (Vec4 (Num a) (Num b) (Num c) (Num 1))"

text \<open>Three ligand patches, the first and the last with the same curvature.\<close>

definition three_ligands :: SurfaceDescriptors where
  "three_ligands = [second_patch Concave, first_patch Concave, second_patch Concave]"

text \<open>A surface of one patch over the vertices 0 and 1, with the representative normal
  \<open>n\<close>.\<close>

definition facing_patch :: "dvec3 \<Rightarrow> Convexity \<Rightarrow> SurfaceDescriptors" where
  "facing_patch n t = [(patch_at (vec3 1 0 0) n [0, 1], descriptor (Num 1) t)]"

text \<open>A unit normal at 60 degrees from the x axis, in the xy plane.\<close>

definition sixty_degrees :: rvec3 where
  "sixty_degrees = RVec3 (1 / 2) (sqrt 3 / 2) 0"

text \<open>
  The double next to \<open>1 / sqrt 3\<close>, which is \<open>5200308914369309 / 2^53\<close> and prints as
  \<open>0.5773502691896258\<close>: in double arithmetic, line 73 computes it for each coordinate of
  the average normal of a group of one patch of representative normal \<open>(1, 1, 1)\<close>
  (\<open>sqrt(3.0)\<close> is \<open>1.7320508075688772\<close> and \<open>1.0 / 1.7320508075688772\<close> is this
  double). The vector is a little longer than one.
\<close>

definition rounded_diagonal :: dvec3 where
  "rounded_diagonal =
     vec3 (5200308914369309 / 9007199254740992) (5200308914369309 / 9007199254740992)
          (5200308914369309 / 9007199254740992)"

text \<open>The matrix whose sixteen entries are NaN.\<close>

definition nan_matrix :: dmat4 where
  "nan_matrix =
     Mat4 (Vec4 NaN NaN NaN NaN) (Vec4 NaN NaN NaN NaN) (Vec4 NaN NaN NaN NaN)
          (Vec4 NaN NaN NaN NaN)"

text \<open>A mesh of two vertices, the first with a NaN coordinate, and a surface of one patch
  over the vertices \<open>ns\<close>.\<close>

definition nan_mesh :: Graph where
  "nan_mesh = [node_at (Vec3 NaN (Num 0) (Num 0)), node_at (vec3 1 0 0)]"

definition patch_over :: "int list \<Rightarrow> SurfaceDescriptors" where
  "patch_over ns = [(patch_at (vec3 0 0 0) (vec3 0 0 1) ns, descriptor (Num 1) Convex)]"

text \<open>A patch of curvature \<open>c\<close>, and four ligand patches of curvatures 1, -1, 0 and 1.\<close>

definition curved_patch :: "real \<Rightarrow> Convexity \<Rightarrow> Patch \<times> Descriptor" where
  "curved_patch c t = (patch_at (vec3 0 0 0) (vec3 0 0 1) [], descriptor (Num c) t)"

definition four_ligands :: SurfaceDescriptors where
  "four_ligands =
     [curved_patch 1 Concave, curved_patch (- 1) Concave, curved_patch 0 Concave,
      curved_patch 1 Concave]"

section \<open>Lists in the order of a relation\<close>

text \<open>A list that is sorted with respect to an irreflexive and transitive relation is
  determined by its elements.\<close>

lemma sorted_wrt_unique:
  assumes "sorted_wrt R xs" "sorted_wrt R ys" "set xs = set ys"
    and irrefl: "\<And>a. a \<in> set xs \<Longrightarrow> \<not> R a a"
    and trans: "\<And>a b c. a \<in> set xs \<Longrightarrow> b \<in> set xs \<Longrightarrow> c \<in> set xs \<Longrightarrow> R a b \<Longrightarrow> R b c \<Longrightarrow> R a c"
  shows "xs = ys"
  using assms
proof (induction xs arbitrary: ys)
  case Nil
  then show ?case by simp
next
  case (Cons x xs)
  from Cons.prems(3) obtain y ys' where ys: "ys = y # ys'"
    by (cases ys) auto
  from Cons.prems(1) have x_first: "\<And>z. z \<in> set xs \<Longrightarrow> R x z" and sx: "sorted_wrt R xs"
    by simp_all
  from Cons.prems(2) ys have y_first: "\<And>z. z \<in> set ys' \<Longrightarrow> R y z" and sy: "sorted_wrt R ys'"
    by simp_all
  have x_mem: "x \<in> set (x # xs)"
    by simp
  have xy: "x = y"
  proof (rule ccontr)
    assume ne: "x \<noteq> y"
    with Cons.prems(3) ys have "x \<in> set ys'" and y_in: "y \<in> set xs"
      by auto
    then have "R y x" "R x y"
      by (simp_all add: x_first y_first)
    moreover from y_in have "y \<in> set (x # xs)"
      by simp
    ultimately have "R x x"
      using Cons.prems(5) [OF x_mem _ x_mem] by blast
    with Cons.prems(4) [OF x_mem] show False
      by simp
  qed
  have "x \<notin> set xs"
    using x_first Cons.prems(4) [OF x_mem] by blast
  moreover have "y \<notin> set ys'"
    using y_first Cons.prems(4) [OF x_mem] xy by blast
  ultimately have sets: "set xs = set ys'"
    using Cons.prems(3) ys xy by auto
  have "xs = ys'"
  proof (rule Cons.IH [OF sx sy sets])
    show "\<not> R a a" if "a \<in> set xs" for a
      using that by (simp add: Cons.prems(4))
    show "R a c" if "a \<in> set xs" "b \<in> set xs" "c \<in> set xs" "R a b" "R b c" for a b c
      using that Cons.prems(5) [of a b c] by simp
  qed
  with xy ys show ?case
    by simp
qed

lemma sorted_wrt_irrefl_distinct:
  "sorted_wrt R xs \<Longrightarrow> (\<And>a. a \<in> set xs \<Longrightarrow> \<not> R a a) \<Longrightarrow> distinct xs"
proof (induction xs)
  case Nil
  then show ?case by simp
next
  case (Cons x xs)
  from Cons.prems have "x \<notin> set xs"
    by (metis list.set_intros(1) sorted_wrt.simps(2))
  with Cons show ?case
    by simp
qed

text \<open>Where any two elements are comparable, a list without repetition in which no element
  is less than an earlier one is strictly ascending.\<close>

lemma sorted_wrt_strict:
  assumes sorted: "sorted_wrt (\<lambda>a b. \<not> lt b a) zs"
    and comparable: "\<And>a b. a \<in> set zs \<Longrightarrow> b \<in> set zs \<Longrightarrow> a \<noteq> b \<Longrightarrow> lt a b \<or> lt b a"
    and distinct: "distinct zs"
  shows "sorted_wrt lt zs"
  using assms
proof (induction zs)
  case Nil
  then show ?case by simp
next
  case (Cons z zs)
  have "lt z w" if "w \<in> set zs" for w
  proof -
    from Cons.prems(1,3) that have "\<not> lt w z" "z \<noteq> w"
      by auto
    with Cons.prems(2) [of z w] that show ?thesis
      by auto
  qed
  moreover have "sorted_wrt lt zs"
  proof (rule Cons.IH)
    show "lt a b \<or> lt b a" if "a \<in> set zs" "b \<in> set zs" "a \<noteq> b" for a b
      using that Cons.prems(2) [of a b] by simp
  qed (use Cons.prems in simp_all)
  ultimately show ?case
    by simp
qed

section \<open>The order of the doubles\<close>

lemma dless_irrefl [simp]: "\<not> dless a a"
  by (cases a) auto

lemma dless_trans: "dless a b \<Longrightarrow> dless b c \<Longrightarrow> dless a c"
  by (cases a; cases b; cases c) auto

lemma dless_asym: "dless a b \<Longrightarrow> \<not> dless b a"
  by (cases a; cases b) auto

lemma dless_total: "a \<noteq> NaN \<Longrightarrow> b \<noteq> NaN \<Longrightarrow> dless a b \<or> a = b \<or> dless b a"
  by (cases a; cases b) auto

lemma deq_iff: "deq a b \<longleftrightarrow> a \<noteq> NaN \<and> a = b"
  by (simp add: deq_def)

section \<open>Sorting under a strict weak ordering\<close>

text \<open>What a strict weak ordering on the elements of a list gives.\<close>

lemma strict_weak_onD:
  assumes "strict_weak_on lt xs"
  shows "a \<in> set xs \<Longrightarrow> \<not> lt a a"
    and "a \<in> set xs \<Longrightarrow> b \<in> set xs \<Longrightarrow> c \<in> set xs \<Longrightarrow> lt a b \<Longrightarrow> lt b c \<Longrightarrow> lt a c"
    and "a \<in> set xs \<Longrightarrow> b \<in> set xs \<Longrightarrow> c \<in> set xs \<Longrightarrow>
         \<not> lt a b \<Longrightarrow> \<not> lt b a \<Longrightarrow> \<not> lt b c \<Longrightarrow> \<not> lt c b \<Longrightarrow> \<not> lt a c \<and> \<not> lt c a"
  using assms unfolding strict_weak_on_def list_all_iff by blast+

lemma strict_weak_on_asym:
  assumes "strict_weak_on lt xs" "a \<in> set xs" "b \<in> set xs" "lt a b"
  shows "\<not> lt b a"
  using assms strict_weak_onD(1,2) by metis

text \<open>Not being greater is transitive.\<close>

lemma strict_weak_on_not_greater_trans:
  assumes swo: "strict_weak_on lt xs"
    and mem: "a \<in> set xs" "b \<in> set xs" "c \<in> set xs"
    and ab: "\<not> lt b a" and bc: "\<not> lt c b"
  shows "\<not> lt c a"
proof
  assume ca: "lt c a"
  show False
  proof (cases "lt a b")
    case True
    with swo mem ca have "lt c b" by (metis strict_weak_onD(2))
    with bc show False by simp
  next
    case nab: False
    show False
    proof (cases "lt b c")
      case True
      with swo mem ca have "lt b a" by (metis strict_weak_onD(2))
      with ab show False by simp
    next
      case False
      with swo mem nab ab bc have "\<not> lt c a" by (metis strict_weak_onD(3))
      with ca show False by simp
    qed
  qed
qed

lemma set_sort_insert: "set (sort_insert lt x ys) = insert x (set ys)"
  by (induction ys) auto

lemma mset_sort_insert: "mset (sort_insert lt x ys) = add_mset x (mset ys)"
  by (induction ys) auto

lemma sorted_sort_insert:
  assumes swo: "strict_weak_on lt xs"
    and sub: "insert x (set ys) \<subseteq> set xs"
    and sorted: "sorted_wrt (\<lambda>a b. \<not> lt b a) ys"
  shows "sorted_wrt (\<lambda>a b. \<not> lt b a) (sort_insert lt x ys)"
  using sub sorted
proof (induction ys)
  case Nil
  then show ?case by simp
next
  case (Cons y ys)
  show ?case
  proof (cases "lt x y")
    case True
    with swo Cons.prems(1) have xy: "\<not> lt y x"
      by (auto dest: strict_weak_on_asym)
    have "\<not> lt z x" if "z \<in> set ys" for z
    proof -
      from Cons.prems(2) that have "\<not> lt z y" by simp
      moreover from Cons.prems(1) that have "x \<in> set xs" "y \<in> set xs" "z \<in> set xs"
        by auto
      ultimately show ?thesis
        using swo xy by (blast dest: strict_weak_on_not_greater_trans)
    qed
    with True xy Cons.prems(2) show ?thesis by auto
  next
    case False
    with Cons show ?thesis
      by (auto simp: set_sort_insert)
  qed
qed

lemma set_foldr_sort_insert: "set (foldr (sort_insert lt) xs []) = set xs"
  by (induction xs) (auto simp: set_sort_insert)

lemma mset_foldr_sort_insert: "mset (foldr (sort_insert lt) xs []) = mset xs"
  by (induction xs) (auto simp: mset_sort_insert)

lemma sorted_foldr_sort_insert:
  assumes swo: "strict_weak_on lt zs"
  shows "set xs \<subseteq> set zs \<Longrightarrow> sorted_wrt (\<lambda>a b. \<not> lt b a) (foldr (sort_insert lt) xs [])"
proof (induction xs)
  case Nil
  then show ?case by simp
next
  case (Cons x xs)
  then show ?case
    using sorted_sort_insert [OF swo, of x "foldr (sort_insert lt) xs []"]
    by (simp add: set_foldr_sort_insert)
qed

lemma std_sort_Inr:
  assumes "std_sort lt xs = Inr ys"
  shows "sorted_wrt (\<lambda>a b. \<not> lt b a) ys" and "mset ys = mset xs"
proof -
  from assms have swo: "strict_weak_on lt xs" and ys: "ys = foldr (sort_insert lt) xs []"
    by (auto simp: std_sort_def split: if_splits)
  from swo show "sorted_wrt (\<lambda>a b. \<not> lt b a) ys"
    unfolding ys by (rule sorted_foldr_sort_insert) simp
  show "mset ys = mset xs"
    unfolding ys by (rule mset_foldr_sort_insert)
qed

text \<open>The similarity list: ligand indices in increasing order, each with its score.\<close>

lemma similarity_loop_indices:
  "(d, i) \<in> set (similarity_loop t_patch dl l) \<Longrightarrow>
   l \<le> i \<and> i < l + int (length dl)
   \<and> desc_type (snd t_patch) \<noteq> desc_type (snd (dl ! nat (i - l)))
   \<and> d = dissimilarity (snd t_patch) (snd (dl ! nat (i - l)))"
proof (induction dl arbitrary: l)
  case Nil
  then show ?case by simp
next
  case (Cons l_patch rest)
  show ?case
  proof (cases "i = l")
    case True
    with Cons.prems Cons.IH [of "l + 1"] show ?thesis
      by (auto split: if_splits)
  next
    case False
    with Cons.prems have "(d, i) \<in> set (similarity_loop t_patch rest (l + 1))"
      by (auto split: if_splits)
    from Cons.IH [OF this] have ih: "l + 1 \<le> i" "i < l + 1 + int (length rest)"
      "desc_type (snd t_patch) \<noteq> desc_type (snd (rest ! nat (i - (l + 1))))"
      "d = dissimilarity (snd t_patch) (snd (rest ! nat (i - (l + 1))))"
      by simp_all
    from ih(1) have "nat (i - l) = Suc (nat (i - (l + 1)))"
      by simp
    with ih show ?thesis
      by simp
  qed
qed

lemma similarity_loop_distinct: "distinct (map snd (similarity_loop t_patch dl l))"
proof (induction dl arbitrary: l)
  case Nil
  then show ?case by simp
next
  case (Cons l_patch rest)
  have "l \<notin> snd ` set (similarity_loop t_patch rest (l + 1))"
    using similarity_loop_indices [of _ l t_patch rest "l + 1"] by force
  with Cons show ?case by simp
qed

text \<open>The comparison of the pairs is a strict weak ordering when no score is NaN, and then
  the ranking returns as soon as the erase is in range.\<close>

lemma std_pair_less_total:
  "fst a \<noteq> NaN \<Longrightarrow> fst b \<noteq> NaN \<Longrightarrow> std_pair_less a b \<or> a = b \<or> std_pair_less b a"
  using dless_total [of "fst a" "fst b"]
  by (auto simp: std_pair_less_def prod_eq_iff dest: dless_asym)

lemma std_pair_less_irrefl: "\<not> std_pair_less a a"
  by (simp add: std_pair_less_def)

lemma std_pair_less_trans:
  assumes "fst a \<noteq> NaN" "fst b \<noteq> NaN" "fst c \<noteq> NaN"
    and ab: "std_pair_less a b" and bc: "std_pair_less b c"
  shows "std_pair_less a c"
proof -
  from assms(1,2) ab have 1: "dless (fst a) (fst b) \<or> (fst a = fst b \<and> snd a < snd b)"
    using dless_total [of "fst a" "fst b"] by (auto simp: std_pair_less_def)
  from assms(2,3) bc have 2: "dless (fst b) (fst c) \<or> (fst b = fst c \<and> snd b < snd c)"
    using dless_total [of "fst b" "fst c"] by (auto simp: std_pair_less_def)
  from 1 2 show ?thesis
    by (auto simp: std_pair_less_def dest: dless_trans)
qed

lemma strict_weak_on_std_pair_less:
  assumes nonan: "\<forall>a \<in> set xs. fst a \<noteq> NaN"
  shows "strict_weak_on std_pair_less xs"
proof -
  have eq: "a = c" if "a \<in> set xs" "b \<in> set xs" "c \<in> set xs"
      "\<not> std_pair_less a b" "\<not> std_pair_less b a" "\<not> std_pair_less b c" "\<not> std_pair_less c b"
    for a b c
    using that nonan std_pair_less_total [of a b] std_pair_less_total [of b c] by auto
  show ?thesis
    unfolding strict_weak_on_def list_all_iff
  proof (intro conjI ballI impI)
    fix a b c
    assume "a \<in> set xs" "b \<in> set xs" "c \<in> set xs" "std_pair_less a b \<and> std_pair_less b c"
    with nonan show "std_pair_less a c"
      by (blast intro: std_pair_less_trans)
  next
    fix a b c
    assume "a \<in> set xs" "b \<in> set xs" "c \<in> set xs"
      "\<not> std_pair_less a b \<and> \<not> std_pair_less b a \<and> \<not> std_pair_less b c \<and> \<not> std_pair_less c b"
    then have "a = c" using eq by blast
    then show "\<not> std_pair_less a c" "\<not> std_pair_less c a"
      by (simp_all add: std_pair_less_irrefl)
  qed (simp add: std_pair_less_irrefl)
qed

lemma ranked_candidates_returns:
  assumes nonan: "\<forall>a \<in> set (similarity_loop t_patch desc_ligand 0). fst a \<noteq> NaN"
    and n: "0 \<le> N_BEST_PAIRS P"
      "N_BEST_PAIRS P \<le> int (length (similarity_loop t_patch desc_ligand 0))"
  shows "\<exists>kept. ranked_candidates P t_patch desc_ligand = Inr kept
                \<and> int (length kept) = N_BEST_PAIRS P"
proof -
  let ?xs = "similarity_loop t_patch desc_ligand 0"
  let ?ys = "foldr (sort_insert std_pair_less) ?xs []"
  from nonan have sort: "std_sort std_pair_less ?xs = Inr ?ys"
    by (simp add: std_sort_def strict_weak_on_std_pair_less)
  have "length ?ys = length ?xs"
    by (metis mset_foldr_sort_insert size_mset)
  with n sort show ?thesis
    by (simp add: ranked_candidates_def erase_from_def)
qed

text \<open>
  The result of \<open>std::sort\<close> on a similarity list does not depend on the sorting
  algorithm: the entries have different indices, so any two of them are comparable, and the
  list that the model computes by insertion is the only rearrangement in which no entry is
  less than an earlier one.
\<close>

lemma std_pair_less_comparable:
  assumes "snd a \<noteq> snd b"
  shows "std_pair_less a b \<or> std_pair_less b a"
  using assms by (auto simp: std_pair_less_def)

lemma std_sort_unique:
  assumes sort: "std_sort std_pair_less xs = Inr ys"
    and indices: "distinct (map snd xs)"
    and perm: "mset zs = mset xs"
    and sorted: "sorted_wrt (\<lambda>a b. \<not> std_pair_less b a) zs"
  shows "zs = ys"
proof -
  from sort have swo: "strict_weak_on std_pair_less xs"
    by (auto simp: std_sort_def split: if_splits)
  from std_sort_Inr [OF sort] have ys: "sorted_wrt (\<lambda>a b. \<not> std_pair_less b a) ys"
    "mset ys = mset xs"
    by simp_all
  have sets: "set ys = set xs" "set zs = set xs"
    using ys(2) perm by (auto dest: mset_eq_setD)
  have inj: "a = b" if "a \<in> set xs" "b \<in> set xs" "snd a = snd b" for a b
    using that indices by (auto simp: distinct_map dest: inj_onD)
  have comparable: "std_pair_less a b \<or> std_pair_less b a"
    if "a \<in> set xs" "b \<in> set xs" "a \<noteq> b" for a b
    using that inj std_pair_less_comparable by blast
  have dist: "distinct ys" "distinct zs"
  proof -
    from indices have "distinct xs"
      by (simp add: distinct_map)
    then show "distinct ys" "distinct zs"
      using ys(2) perm by (metis mset_eq_imp_distinct_iff)+
  qed
  have "sorted_wrt std_pair_less ys"
    using ys(1) _ dist(1) by (rule sorted_wrt_strict) (simp add: sets comparable)
  moreover have "sorted_wrt std_pair_less zs"
    using sorted _ dist(2) by (rule sorted_wrt_strict) (simp add: sets comparable)
  ultimately have "ys = zs"
  proof (rule sorted_wrt_unique)
    show "set ys = set zs"
      by (simp add: sets)
    show "\<not> std_pair_less a a" for a
      by (rule std_pair_less_irrefl)
    show "std_pair_less a c"
      if "a \<in> set ys" "b \<in> set ys" "c \<in> set ys" "std_pair_less a b" "std_pair_less b c"
      for a b c
      using that swo sets(1) by (metis strict_weak_onD(2))
  qed
  then show ?thesis
    by simp
qed

text \<open>Every kept entry is an eligible ligand index with its score.\<close>

lemma ranked_candidates_entries:
  assumes "ranked_candidates P t_patch desc_ligand = Inr kept" and "c \<in> set kept"
  shows "0 \<le> snd c \<and> snd c < int (length desc_ligand)
       \<and> desc_type (snd t_patch) \<noteq> desc_type (snd (desc_ligand ! nat (snd c)))
       \<and> fst c = dissimilarity (snd t_patch) (snd (desc_ligand ! nat (snd c)))"
proof -
  let ?xs = "similarity_loop t_patch desc_ligand 0"
  from assms(1) obtain ys where sort: "std_sort std_pair_less ?xs = Inr ys"
    and kept: "kept = take (nat (N_BEST_PAIRS P)) ys"
    by (auto simp: ranked_candidates_def erase_from_def split: sum.splits if_splits)
  from assms(2) have "c \<in> set ys"
    unfolding kept by (rule in_set_takeD)
  with std_sort_Inr(2) [OF sort] have "(fst c, snd c) \<in> set ?xs"
    by (metis mset_eq_setD prod.collapse)
  from similarity_loop_indices [OF this] show ?thesis
    by simp
qed

text \<open>The two cases that the ranking does not test for: more candidates asked for than there
  are, and two curvatures that are both zero.\<close>

lemma length_foldr_sort_insert: "length (foldr (sort_insert lt) xs []) = length xs"
  by (metis mset_foldr_sort_insert size_mset)

lemma ranked_candidates_too_few:
  assumes "int (length (similarity_loop t_patch desc_ligand 0)) < N_BEST_PAIRS P"
  shows "\<exists>e. ranked_candidates P t_patch desc_ligand = Inl e"
  using assms
  by (simp add: ranked_candidates_def std_sort_def erase_from_def length_foldr_sort_insert)

lemma dissimilarity_zero_curvatures:
  assumes "desc_curv t = Num 0" "desc_curv l = Num 0"
  shows "dissimilarity t l = NaN"
  using assms by (simp add: dissimilarity_def dsub_def dmax_def)

section \<open>The Cloud Merger: an ordered set of points\<close>

text \<open>On points without NaN, \<open>comp_point\<close> is the lexicographic order of the three
  coordinates: a strict total order.\<close>

lemma comp_point_irrefl: "\<not> comp_point a a"
  by (simp add: comp_point_def)

lemma comp_point_lex:
  assumes "no_nan a"
  shows "comp_point a b \<longleftrightarrow>
         dless (vx a) (vx b) \<or>
         (vx a = vx b \<and> (dless (vy a) (vy b) \<or> (vy a = vy b \<and> dless (vz a) (vz b))))"
  using assms by (simp add: comp_point_def no_nan_def deq_def)

lemma comp_point_total:
  assumes "no_nan a" "no_nan b"
  shows "comp_point a b \<or> a = b \<or> comp_point b a"
proof -
  from assms have x: "dless (vx a) (vx b) \<or> vx a = vx b \<or> dless (vx b) (vx a)"
    and y: "dless (vy a) (vy b) \<or> vy a = vy b \<or> dless (vy b) (vy a)"
    and z: "dless (vz a) (vz b) \<or> vz a = vz b \<or> dless (vz b) (vz a)"
    by (simp_all add: no_nan_def dless_total)
  have "a = b" if "vx a = vx b" "vy a = vy b" "vz a = vz b"
    using that by (simp add: dvec3.expand)
  with x y z show ?thesis
    unfolding comp_point_lex [OF assms(1)] comp_point_lex [OF assms(2)] by metis
qed

lemma comp_point_trans:
  assumes "no_nan a" "no_nan b" "comp_point a b" "comp_point b c"
  shows "comp_point a c"
  using assms(3,4) unfolding comp_point_lex [OF assms(1)] comp_point_lex [OF assms(2)]
  by (metis dless_trans)

lemma comp_point_equal_iff:
  assumes "no_nan a" "no_nan b"
  shows "(\<not> comp_point a b \<and> \<not> comp_point b a) \<longleftrightarrow> a = b"
  using comp_point_total [OF assms] comp_point_irrefl by auto

text \<open>The set stays sorted, and holds what was inserted.\<close>

lemma set_insert_ok:
  assumes "cloud_ok s" "no_nan x"
  shows "cloud_ok (set_insert comp_point x s) \<and> set (set_insert comp_point x s) = insert x (set s)"
  using assms(1)
proof (induction s)
  case Nil
  with assms(2) show ?case by (simp add: cloud_ok_def)
next
  case (Cons y ys)
  from Cons.prems have y: "no_nan y" and ys: "cloud_ok ys" and lt: "\<forall>z \<in> set ys. comp_point y z"
    and nn: "\<forall>z \<in> set ys. no_nan z"
    by (simp_all add: cloud_ok_def)
  show ?case
  proof (cases "comp_point x y")
    case True
    with lt y assms(2) have "\<forall>z \<in> set ys. comp_point x z"
      by (blast intro: comp_point_trans)
    with True Cons.prems assms(2) show ?thesis
      by (simp add: cloud_ok_def)
  next
    case nxy: False
    show ?thesis
    proof (cases "comp_point y x")
      case True
      from Cons.IH [OF ys] have "cloud_ok (set_insert comp_point x ys)"
        "set (set_insert comp_point x ys) = insert x (set ys)"
        by simp_all
      with True nxy lt y show ?thesis
        by (simp add: cloud_ok_def insert_commute)
    next
      case False
      with nxy y assms(2) have "x = y"
        using comp_point_total by blast
      with nxy Cons.prems show ?thesis
        by simp
    qed
  qed
qed

lemma insert_patch_nodes_ok:
  assumes "insert_patch_nodes target ps cloud = Inr cloud'"
    and "cloud_ok cloud"
    and "\<forall>p \<in> set ps. no_nan (node_pos (target ! nat p))"
  shows "cloud_ok cloud' \<and> set cloud' = set cloud \<union> (\<lambda>p. node_pos (target ! nat p)) ` set ps"
  using assms
proof (induction ps arbitrary: cloud)
  case Nil
  then show ?case by simp
next
  case (Cons p ps)
  from Cons.prems(1) obtain n s where n: "get_node target p = Inr n"
    and s: "std_set_insert comp_point (node_pos n) cloud = Inr s"
    and rest: "insert_patch_nodes target ps s = Inr cloud'"
    by (auto split: sum.splits)
  from n have pos: "node_pos n = node_pos (target ! nat p)"
    by (auto simp: get_node_def elem_at_def split: if_splits)
  from s have "s = set_insert comp_point (node_pos n) cloud"
    by (auto simp: std_set_insert_def split: if_splits)
  with set_insert_ok [OF Cons.prems(2), of "node_pos n"] pos Cons.prems(3)
  have ok: "cloud_ok s" and set: "set s = insert (node_pos (target ! nat p)) (set cloud)"
    by simp_all
  from Cons.IH [OF rest ok] Cons.prems(3) set show ?case
    by auto
qed

lemma cloud_loop_ok:
  assumes "cloud_loop descriptors target grp cloud avg = Inr (cloud', avg')"
    and "cloud_ok cloud"
    and "\<forall>v \<in> group_positions grp descriptors target. no_nan v"
  shows "cloud_ok cloud' \<and> set cloud' = set cloud \<union> group_positions grp descriptors target"
  using assms
proof (induction grp arbitrary: cloud avg)
  case Nil
  then show ?case by (simp add: group_positions_def)
next
  case (Cons i rest)
  from Cons.prems(1) obtain d s where d: "elem_at descriptors i = Inr d"
    and s: "insert_patch_nodes target (patch_nodes (fst d)) cloud = Inr s"
    and loop: "cloud_loop descriptors target rest s (vec_add avg (patch_normal (fst d)))
        = Inr (cloud', avg')"
    by (auto simp: Let_def split: sum.splits)
  from d have d': "d = descriptors ! nat i"
    by (auto simp: elem_at_def split: if_splits)
  from Cons.prems(3) have here: "\<forall>p \<in> set (patch_nodes (fst d)). no_nan (node_pos (target ! nat p))"
    and there: "\<forall>v \<in> group_positions rest descriptors target. no_nan v"
    by (auto simp: group_positions_def d')
  from insert_patch_nodes_ok [OF s Cons.prems(2) here]
  have ok: "cloud_ok s"
    and set: "set s = set cloud \<union> (\<lambda>p. node_pos (target ! nat p)) ` set (patch_nodes (fst d))"
    by simp_all
  from Cons.IH [OF loop ok there] set show ?case
    by (auto simp: group_positions_def d')
qed

text \<open>The cloud is built whenever the indices are in range and the positions have no NaN.\<close>

lemma strict_weak_on_comp_point:
  assumes nonan: "\<forall>v \<in> set xs. no_nan v"
  shows "strict_weak_on comp_point xs"
  unfolding strict_weak_on_def list_all_iff
proof (intro conjI ballI impI)
  fix a b c
  assume "a \<in> set xs" "b \<in> set xs" "c \<in> set xs" "comp_point a b \<and> comp_point b c"
  with nonan show "comp_point a c"
    by (blast intro: comp_point_trans)
next
  fix a b c
  assume "a \<in> set xs" "b \<in> set xs" "c \<in> set xs"
    "\<not> comp_point a b \<and> \<not> comp_point b a \<and> \<not> comp_point b c \<and> \<not> comp_point c b"
  with nonan have "a = b" "b = c"
    using comp_point_total by blast+
  then show "\<not> comp_point a c" "\<not> comp_point c a"
    by (simp_all add: comp_point_irrefl)
qed (simp add: comp_point_irrefl)

lemma set_set_insert: "set (set_insert lt x s) \<subseteq> insert x (set s)"
  by (induction s) auto

lemma insert_patch_nodes_returns:
  assumes mesh: "\<forall>node \<in> set target. no_nan (node_pos node)"
  shows "\<forall>p \<in> set ps. 0 \<le> p \<and> p < int (length target) \<Longrightarrow> \<forall>v \<in> set cloud. no_nan v \<Longrightarrow>
         \<exists>cloud'. insert_patch_nodes target ps cloud = Inr cloud' \<and> (\<forall>v \<in> set cloud'. no_nan v)"
proof (induction ps arbitrary: cloud)
  case Nil
  then show ?case by simp
next
  case (Cons p ps)
  from Cons.prems(1) have "0 \<le> p" "p < int (length target)"
    by simp_all
  then have p: "0 \<le> p" "nat p < length target"
    by simp_all
  then have node: "get_node target p = Inr (target ! nat p)"
    and mem: "target ! nat p \<in> set target"
    by (simp_all add: get_node_def elem_at_def)
  let ?x = "node_pos (target ! nat p)"
  from mem mesh have x: "no_nan ?x"
    by simp
  with Cons.prems(2) have "strict_weak_on comp_point (?x # cloud)"
    by (intro strict_weak_on_comp_point) simp
  then have ins: "std_set_insert comp_point ?x cloud = Inr (set_insert comp_point ?x cloud)"
    by (simp add: std_set_insert_def)
  have "\<forall>v \<in> set (set_insert comp_point ?x cloud). no_nan v"
    using set_set_insert [of comp_point ?x cloud] x Cons.prems(2) by auto
  moreover from Cons.prems(1) have "\<forall>p \<in> set ps. 0 \<le> p \<and> p < int (length target)"
    by simp
  ultimately obtain cloud' where
    "insert_patch_nodes target ps (set_insert comp_point ?x cloud) = Inr cloud'"
    "\<forall>v \<in> set cloud'. no_nan v"
    using Cons.IH by blast
  with node ins show ?case
    by simp
qed

lemma cloud_loop_returns:
  assumes mesh: "mesh_ok descriptors target"
  shows "\<forall>i \<in> set grp. 0 \<le> i \<and> i < int (length descriptors) \<Longrightarrow> \<forall>v \<in> set cloud. no_nan v \<Longrightarrow>
         \<exists>r. cloud_loop descriptors target grp cloud avg = Inr r"
proof (induction grp arbitrary: cloud avg)
  case Nil
  then show ?case by simp
next
  case (Cons i rest)
  from Cons.prems(1) have "0 \<le> i" "i < int (length descriptors)"
    by simp_all
  then have i: "0 \<le> i" "nat i < length descriptors"
    by simp_all
  then have elem: "elem_at descriptors i = Inr (descriptors ! nat i)"
    and mem: "descriptors ! nat i \<in> set descriptors"
    by (simp_all add: elem_at_def)
  let ?patch = "fst (descriptors ! nat i)"
  from mesh mem have "\<forall>p \<in> set (patch_nodes ?patch). 0 \<le> p \<and> p < int (length target)"
    and nonan: "\<forall>node \<in> set target. no_nan (node_pos node)"
    by (simp_all add: mesh_ok_def)
  from insert_patch_nodes_returns [OF nonan this(1) Cons.prems(2)] obtain cloud' where
    ins: "insert_patch_nodes target (patch_nodes ?patch) cloud = Inr cloud'"
    and ok: "\<forall>v \<in> set cloud'. no_nan v"
    by blast
  from Cons.prems(1) have "\<forall>i \<in> set rest. 0 \<le> i \<and> i < int (length descriptors)"
    by simp
  from Cons.IH [OF this ok] elem ins show ?case
    by (simp add: Let_def)
qed

lemma build_cloud_from_group_returns:
  assumes "mesh_ok descriptors target"
    and "\<forall>i \<in> set grp. 0 \<le> i \<and> i < int (length descriptors)"
  shows "\<exists>r. build_cloud_from_group grp descriptors target = Inr r"
proof -
  have "\<forall>v \<in> set []. no_nan v"
    by simp
  from cloud_loop_returns [OF assms this] obtain r where
    "cloud_loop descriptors target grp [] (Vec3 (Num 0) (Num 0) (Num 0)) = Inr r"
    by blast
  then show ?thesis
    by (cases r) (simp add: build_cloud_from_group_def)
qed

text \<open>The cloud is built for a group whose indices are in range and whose positions have
  no NaN, whatever the rest of the mesh is.\<close>

lemma insert_patch_nodes_total:
  "\<forall>p \<in> set ps. 0 \<le> p \<and> p < int (length target) \<and> no_nan (node_pos (target ! nat p)) \<Longrightarrow>
   \<forall>v \<in> set cloud. no_nan v \<Longrightarrow>
   \<exists>cloud'. insert_patch_nodes target ps cloud = Inr cloud' \<and> (\<forall>v \<in> set cloud'. no_nan v)"
proof (induction ps arbitrary: cloud)
  case Nil
  then show ?case by simp
next
  case (Cons p ps)
  from Cons.prems(1) have "0 \<le> p" "p < int (length target)"
    and x: "no_nan (node_pos (target ! nat p))"
    by simp_all
  then have p: "0 \<le> p" "nat p < length target"
    by simp_all
  then have node: "get_node target p = Inr (target ! nat p)"
    by (simp add: get_node_def elem_at_def)
  let ?x = "node_pos (target ! nat p)"
  from x Cons.prems(2) have "strict_weak_on comp_point (?x # cloud)"
    by (intro strict_weak_on_comp_point) simp
  then have ins: "std_set_insert comp_point ?x cloud = Inr (set_insert comp_point ?x cloud)"
    by (simp add: std_set_insert_def)
  have "\<forall>v \<in> set (set_insert comp_point ?x cloud). no_nan v"
    using set_set_insert [of comp_point ?x cloud] x Cons.prems(2) by auto
  moreover from Cons.prems(1)
  have "\<forall>p \<in> set ps. 0 \<le> p \<and> p < int (length target) \<and> no_nan (node_pos (target ! nat p))"
    by simp
  ultimately obtain cloud' where
    "insert_patch_nodes target ps (set_insert comp_point ?x cloud) = Inr cloud'"
    "\<forall>v \<in> set cloud'. no_nan v"
    using Cons.IH by blast
  with node ins show ?case
    by simp
qed

lemma cloud_loop_total:
  "group_in_range grp descriptors target \<Longrightarrow>
   \<forall>v \<in> group_positions grp descriptors target. no_nan v \<Longrightarrow>
   \<forall>v \<in> set cloud. no_nan v \<Longrightarrow>
   \<exists>r. cloud_loop descriptors target grp cloud avg = Inr r"
proof (induction grp arbitrary: cloud avg)
  case Nil
  then show ?case by simp
next
  case (Cons i rest)
  let ?patch = "fst (descriptors ! nat i)"
  from Cons.prems(1) have "0 \<le> i" "i < int (length descriptors)"
    and nodes: "\<forall>p \<in> set (patch_nodes ?patch). 0 \<le> p \<and> p < int (length target)"
    and rest: "group_in_range rest descriptors target"
    by (simp_all add: group_in_range_def)
  then have i: "0 \<le> i" "nat i < length descriptors"
    by simp_all
  then have elem: "elem_at descriptors i = Inr (descriptors ! nat i)"
    by (simp add: elem_at_def)
  from Cons.prems(2) have here: "\<forall>p \<in> set (patch_nodes ?patch). no_nan (node_pos (target ! nat p))"
    and there: "\<forall>v \<in> group_positions rest descriptors target. no_nan v"
    by (simp_all add: group_positions_def)
  from nodes here
  have "\<forall>p \<in> set (patch_nodes ?patch).
          0 \<le> p \<and> p < int (length target) \<and> no_nan (node_pos (target ! nat p))"
    by simp
  from insert_patch_nodes_total [OF this Cons.prems(3)] obtain cloud' where
    ins: "insert_patch_nodes target (patch_nodes ?patch) cloud = Inr cloud'"
    and ok: "\<forall>v \<in> set cloud'. no_nan v"
    by blast
  from Cons.IH [OF rest there ok] elem ins show ?case
    by (simp add: Let_def)
qed

lemma build_cloud_from_group_total:
  assumes "group_in_range grp descriptors target"
    and "\<forall>v \<in> group_positions grp descriptors target. no_nan v"
  shows "\<exists>cloud avg_normal. build_cloud_from_group grp descriptors target = Inr (cloud, avg_normal)"
proof -
  have "\<forall>v \<in> set []. no_nan v"
    by simp
  from cloud_loop_total [OF assms this] obtain r where
    "cloud_loop descriptors target grp [] (Vec3 (Num 0) (Num 0) (Num 0)) = Inr r"
    by blast
  then show ?thesis
    by (cases r) (simp add: build_cloud_from_group_def)
qed

text \<open>What the cloud of a returned call holds, when the positions have no NaN.\<close>

lemma returned_cloud_sorted_set:
  assumes run: "build_cloud_from_group grp descriptors target = Inr (cloud, avg_normal)"
    and nonan: "\<forall>v \<in> group_positions grp descriptors target. no_nan v"
  shows "set cloud = group_positions grp descriptors target"
    and "sorted_wrt comp_point cloud"
    and "\<forall>v \<in> set cloud. no_nan v"
proof -
  from run obtain avg where loop:
    "cloud_loop descriptors target grp [] (Vec3 (Num 0) (Num 0) (Num 0)) = Inr (cloud, avg)"
    by (auto simp: build_cloud_from_group_def split: sum.splits prod.splits)
  have "cloud_ok []"
    by (simp add: cloud_ok_def)
  from cloud_loop_ok [OF loop this nonan] have ok: "cloud_ok cloud"
    and set: "set cloud = group_positions grp descriptors target"
    by simp_all
  from set show "set cloud = group_positions grp descriptors target" .
  from ok show "sorted_wrt comp_point cloud" "\<forall>v \<in> set cloud. no_nan v"
    by (simp_all add: cloud_ok_def)
qed

text \<open>The average normal: the sum of the representative normals of the member patches,
  scaled by one over their number, and normalized.\<close>

lemma cloud_loop_normal:
  "cloud_loop descriptors target grp cloud avg = Inr (cloud', avg') \<Longrightarrow>
   avg' = foldl vec_add avg (map (\<lambda>i. patch_normal (fst (descriptors ! nat i))) grp)"
proof (induction grp arbitrary: cloud avg)
  case Nil
  then show ?case by simp
next
  case (Cons i rest)
  from Cons.prems obtain d s where d: "elem_at descriptors i = Inr d"
    and loop: "cloud_loop descriptors target rest s (vec_add avg (patch_normal (fst d)))
        = Inr (cloud', avg')"
    by (auto simp: Let_def split: sum.splits)
  from d have "d = descriptors ! nat i"
    by (auto simp: elem_at_def split: if_splits)
  with Cons.IH [OF loop] show ?case
    by simp
qed

lemma build_cloud_from_group_normal:
  assumes "build_cloud_from_group grp descriptors target = Inr (cloud, avg_normal)"
  shows "avg_normal =
           glm_normalize
             (vec_scale
                (foldl vec_add (Vec3 (Num 0) (Num 0) (Num 0))
                   (map (\<lambda>i. patch_normal (fst (descriptors ! nat i))) grp))
                (ddiv (Num 1) (Num (real (length grp)))))"
  using assms
  by (auto simp: build_cloud_from_group_def split: sum.splits prod.splits dest: cloud_loop_normal)

section \<open>The Group Builder: what one step does, and what every step keeps\<close>

lemma grouping_crit_Inr:
  "grouping_crit P dt dl cur grp crit = Inr b \<Longrightarrow> b = (crit \<and> criterion_holds P dt dl cur grp)"
proof (induction grp arbitrary: crit)
  case Nil
  then show ?case by (simp add: criterion_holds_def)
next
  case (Cons pair rest)
  then show ?case
    by (auto simp: criterion_holds_def within_thresh_def Let_def not_less split: sum.splits if_splits)
qed

lemma groups_loop_Inr:
  "groups_loop P dt dl cur groups added = Inr (groups', added') \<Longrightarrow>
   groups' = map (\<lambda>g. if criterion_holds P dt dl cur g then g @ [cur] else g) groups \<and>
   added' = (added \<or> list_ex (criterion_holds P dt dl cur) groups)"
proof (induction groups arbitrary: added groups' added')
  case Nil
  then show ?case by simp
next
  case (Cons grp rest)
  then show ?case
    by (auto split: sum.splits prod.splits if_splits dest!: grouping_crit_Inr)
qed

lemma map_unless_none: "\<not> list_ex Q gs \<Longrightarrow> map (\<lambda>g. if Q g then f g else g) gs = gs"
  by (induction gs) auto

lemma group_pair_spec:
  assumes "group_pair P dt dl cur groups = Inr groups'"
  shows "groups' = spec_group_pair P dt dl cur groups"
proof -
  from assms obtain gs added where
    loop: "groups_loop P dt dl cur groups False = Inr (gs, added)" and
    res: "groups' = (if \<not> added then gs @ [[cur]] else gs)"
    by (auto simp: group_pair_def split: sum.splits prod.splits)
  from groups_loop_Inr [OF loop] have
    gs: "gs = map (\<lambda>g. if criterion_holds P dt dl cur g then g @ [cur] else g) groups" and
    added: "added = list_ex (criterion_holds P dt dl cur) groups"
    by simp_all
  show ?thesis
  proof (cases added)
    case True
    with res gs added show ?thesis by (simp add: spec_group_pair_def)
  next
    case False
    with added have "gs = groups"
      unfolding gs by (simp add: map_unless_none)
    with False res added show ?thesis by (simp add: spec_group_pair_def)
  qed
qed

lemma inserted_within_refl: "inserted_within P dt dl g g"
  by (simp add: inserted_within_def)

lemma inserted_within_snoc:
  "criterion_holds P dt dl cur g \<Longrightarrow> inserted_within P dt dl g (g @ [cur])"
  by (auto simp: inserted_within_def criterion_holds_def list_all_length nth_append less_Suc_eq)

lemma inserted_within_trans:
  assumes ab: "inserted_within P dt dl a b" and bc: "inserted_within P dt dl b c"
  shows "inserted_within P dt dl a c"
proof -
  from ab bc have pab: "prefix a b" and pbc: "prefix b c"
    by (simp_all add: inserted_within_def)
  then obtain u where c: "c = b @ u" by (auto simp: prefix_def)
  have "within_thresh P dt dl (c ! j) (c ! k)" if j: "j < length c" "length a \<le> j" and k: "k < j" for j k
  proof (cases "j < length b")
    case True
    with ab j k have "within_thresh P dt dl (b ! j) (b ! k)"
      by (simp add: inserted_within_def)
    with True k show ?thesis by (simp add: c nth_append)
  next
    case False
    with bc j k show ?thesis by (simp add: inserted_within_def)
  qed
  moreover from pab pbc have "prefix a c" by (rule prefix_order.trans)
  ultimately show ?thesis by (simp add: inserted_within_def)
qed

lemma inserted_within_nonempty:
  "inserted_within P dt dl b c \<Longrightarrow> b \<noteq> [] \<Longrightarrow> c \<noteq> []"
  by (auto simp: inserted_within_def)

lemma inserted_within_single: "inserted_within P dt dl [] [cur]"
  by (simp add: inserted_within_def)

lemma groups_grown_refl: "groups_grown P dt dl gs gs"
  by (simp add: groups_grown_def inserted_within_refl)

lemma groups_grown_trans:
  assumes ab: "groups_grown P dt dl a b" and bc: "groups_grown P dt dl b c"
  shows "groups_grown P dt dl a c"
proof -
  from ab bc have len: "length a \<le> length b" "length b \<le> length c"
    by (simp_all add: groups_grown_def)
  have "if i < length a then inserted_within P dt dl (a ! i) (c ! i)
        else c ! i \<noteq> [] \<and> inserted_within P dt dl [] (c ! i)" if i: "i < length c" for i
  proof (cases "i < length b")
    case True
    with bc i have step: "inserted_within P dt dl (b ! i) (c ! i)"
      by (simp add: groups_grown_def)
    show ?thesis
    proof (cases "i < length a")
      case True
      with ab len have "inserted_within P dt dl (a ! i) (b ! i)"
        by (simp add: groups_grown_def)
      with step True show ?thesis by (simp add: inserted_within_trans)
    next
      case False
      with ab \<open>i < length b\<close> have "b ! i \<noteq> []" "inserted_within P dt dl [] (b ! i)"
        by (simp_all add: groups_grown_def)
      note b = this
      from step b(1) have "c ! i \<noteq> []"
        by (rule inserted_within_nonempty)
      moreover from b(2) step have "inserted_within P dt dl [] (c ! i)"
        by (rule inserted_within_trans)
      ultimately show ?thesis using False by simp
    qed
  next
    case False
    with bc i len show ?thesis by (simp add: groups_grown_def)
  qed
  with len show ?thesis by (simp add: groups_grown_def)
qed

lemma spec_group_pair_grown: "groups_grown P dt dl gs (spec_group_pair P dt dl cur gs)"
proof (cases "list_ex (criterion_holds P dt dl cur) gs")
  case True
  then show ?thesis
    by (simp add: spec_group_pair_def groups_grown_def inserted_within_refl inserted_within_snoc)
next
  case False
  then show ?thesis
    by (simp add: spec_group_pair_def groups_grown_def nth_append inserted_within_refl
        inserted_within_single)
qed

lemma group_pair_grown:
  "group_pair P dt dl cur gs = Inr gs' \<Longrightarrow> groups_grown P dt dl gs gs'"
  by (auto dest!: group_pair_spec simp: spec_group_pair_grown)

lemma candidates_loop_grown:
  "candidates_loop P dt dl t ligs gs = Inr gs' \<Longrightarrow> groups_grown P dt dl gs gs'"
proof (induction ligs arbitrary: gs)
  case Nil
  then show ?case by (simp add: groups_grown_refl)
next
  case (Cons lig rest)
  then show ?case
    by (auto split: sum.splits intro: groups_grown_trans dest: group_pair_grown)
qed

lemma target_step_grown:
  "target_step P dt dl t gs = Inr gs' \<Longrightarrow> groups_grown P dt dl gs gs'"
  by (auto simp: target_step_def split: sum.splits dest: candidates_loop_grown)

lemma targets_loop_grown:
  "targets_loop P dt dl ts gs = Inr gs' \<Longrightarrow> groups_grown P dt dl gs gs'"
proof (induction ts arbitrary: gs)
  case Nil
  then show ?case by (simp add: groups_grown_refl)
next
  case (Cons t ts)
  then show ?case
    by (auto split: sum.splits intro: groups_grown_trans dest: target_step_grown)
qed

lemma build_matching_groups_grown:
  "build_matching_groups P dt dl init = Inr out \<Longrightarrow> groups_grown P dt dl init out"
  by (simp add: build_matching_groups_def targets_loop_grown)

text \<open>The whole function is the specification's step, folded over the ranked pairs.\<close>

lemma candidates_loop_fold:
  "candidates_loop P dt dl t ligs gs = Inr gs' \<Longrightarrow>
   gs' = fold (spec_group_pair P dt dl) (map (\<lambda>lig. (t, snd lig)) ligs) gs"
proof (induction ligs arbitrary: gs)
  case Nil
  then show ?case by simp
next
  case (Cons lig rest)
  then show ?case
    by (auto split: sum.splits dest: group_pair_spec)
qed

lemma target_step_fold:
  "target_step P dt dl t gs = Inr gs' \<Longrightarrow>
   gs' = fold (spec_group_pair P dt dl) (ranked_pairs_of P dt dl t) gs"
  by (auto simp: target_step_def ranked_pairs_of_def split: sum.splits dest: candidates_loop_fold)

lemma targets_loop_fold:
  "targets_loop P dt dl ts gs = Inr gs' \<Longrightarrow>
   gs' = fold (spec_group_pair P dt dl) (concat (map (ranked_pairs_of P dt dl) ts)) gs"
proof (induction ts arbitrary: gs)
  case Nil
  then show ?case by simp
next
  case (Cons t ts)
  then show ?case
    by (auto split: sum.splits dest: target_step_fold)
qed

lemma build_matching_groups_fold:
  "build_matching_groups P dt dl init = Inr out \<Longrightarrow>
   out = fold (spec_group_pair P dt dl) (ranked_pairs P dt dl) init"
  unfolding build_matching_groups_def ranked_pairs_def
  by (rule targets_loop_fold)

text \<open>What a group that grew out of \<open>old\<close> says about the pairs behind \<open>old\<close>.\<close>

lemma inserted_within_old:
  assumes "inserted_within P dt dl old g"
  shows "prefix old g"
    and "p \<in> set (drop (length old) g) \<Longrightarrow> q \<in> set old \<Longrightarrow> within_thresh P dt dl p q"
proof -
  from assms show pre: "prefix old g"
    by (simp add: inserted_within_def)
  from pre obtain u where g: "g = old @ u"
    by (auto simp: prefix_def)
  assume "p \<in> set (drop (length old) g)" and "q \<in> set old"
  with g obtain m k where m: "m < length u" "u ! m = p" and k: "k < length old" "old ! k = q"
    by (auto simp: in_set_conv_nth)
  from assms have "\<forall>j < length g. length old \<le> j \<longrightarrow>
      (\<forall>k < j. within_thresh P dt dl (g ! j) (g ! k))"
    by (simp add: inserted_within_def)
  moreover from g m k have "length old + m < length g" "k < length old + m"
    by simp_all
  ultimately have "within_thresh P dt dl (g ! (length old + m)) (g ! k)"
    by (metis le_add1)
  with g m k show "within_thresh P dt dl p q"
    by (simp add: nth_append)
qed

text \<open>
  The function returns when the ranking of every target patch returns, the distances are
  defined, and the pairs of the groups passed in are in range.
\<close>

lemma grouping_crit_returns:
  assumes "distances_fit dt" "distances_fit dl" "in_range dt dl cur"
  shows "\<forall>p \<in> set grp. in_range dt dl p \<Longrightarrow> \<exists>b. grouping_crit P dt dl cur grp crit = Inr b"
proof (induction grp arbitrary: crit)
  case Nil
  then show ?case by simp
next
  case (Cons pair rest)
  from Cons.prems have pair: "in_range dt dl pair"
    by simp
  with assms obtain d1 d2 where "geodesic_distance (fst cur) (fst pair) dt = Inr d1"
    "geodesic_distance (snd cur) (snd pair) dl = Inr d2"
    unfolding distances_fit_def in_range_def by metis
  with Cons show ?case
    by (simp add: Let_def)
qed

lemma groups_loop_returns:
  assumes "distances_fit dt" "distances_fit dl" "in_range dt dl cur"
  shows "\<forall>g \<in> set groups. \<forall>p \<in> set g. in_range dt dl p \<Longrightarrow>
         \<exists>r. groups_loop P dt dl cur groups added = Inr r"
proof (induction groups arbitrary: added)
  case Nil
  then show ?case by simp
next
  case (Cons grp rest)
  from Cons.prems have "\<forall>p \<in> set grp. in_range dt dl p"
    by simp
  from grouping_crit_returns [OF assms this] obtain crit where
    crit: "grouping_crit P dt dl cur grp True = Inr crit"
    by blast
  from Cons.prems have "\<forall>g \<in> set rest. \<forall>p \<in> set g. in_range dt dl p"
    by simp
  from Cons.IH [OF this] obtain r where
    "groups_loop P dt dl cur rest (if crit then True else added) = Inr r"
    by blast
  with crit show ?case
    by (cases r) simp
qed

lemma group_pair_returns:
  assumes "distances_fit dt" "distances_fit dl" "in_range dt dl cur"
    and "\<forall>g \<in> set groups. \<forall>p \<in> set g. in_range dt dl p"
  shows "\<exists>groups'. group_pair P dt dl cur groups = Inr groups'
                   \<and> (\<forall>g \<in> set groups'. \<forall>p \<in> set g. in_range dt dl p)"
proof -
  from groups_loop_returns [OF assms] obtain r where
    "groups_loop P dt dl cur groups False = Inr r"
    by blast
  then obtain groups' where run: "group_pair P dt dl cur groups = Inr groups'"
    by (cases r) (simp add: group_pair_def)
  from group_pair_spec [OF run] assms(3,4)
  have "\<forall>g \<in> set groups'. \<forall>p \<in> set g. in_range dt dl p"
    by (auto simp: spec_group_pair_def split: if_splits)
  with run show ?thesis
    by blast
qed

lemma candidates_loop_returns:
  assumes "distances_fit dt" "distances_fit dl"
  shows "\<forall>lig \<in> set ligs. in_range dt dl (t, snd lig) \<Longrightarrow>
         \<forall>g \<in> set groups. \<forall>p \<in> set g. in_range dt dl p \<Longrightarrow>
         \<exists>groups'. candidates_loop P dt dl t ligs groups = Inr groups'
                   \<and> (\<forall>g \<in> set groups'. \<forall>p \<in> set g. in_range dt dl p)"
proof (induction ligs arbitrary: groups)
  case Nil
  then show ?case by simp
next
  case (Cons lig rest)
  from Cons.prems(1) have "in_range dt dl (t, snd lig)"
    by simp
  from group_pair_returns [OF assms this Cons.prems(2)] obtain gs where
    step: "group_pair P dt dl (t, snd lig) groups = Inr gs"
    and gs: "\<forall>g \<in> set gs. \<forall>p \<in> set g. in_range dt dl p"
    by blast
  from Cons.prems(1) have "\<forall>lig \<in> set rest. in_range dt dl (t, snd lig)"
    by simp
  from Cons.IH [OF this gs] step show ?case
    by simp
qed

lemma target_step_returns:
  assumes fit: "distances_fit dt" "distances_fit dl"
    and t: "0 \<le> t" "t < int (length dt)"
    and ranked: "ranked_candidates P (dt ! nat t) dl = Inr kept"
    and groups: "\<forall>g \<in> set groups. \<forall>p \<in> set g. in_range dt dl p"
  shows "\<exists>groups'. target_step P dt dl t groups = Inr groups'
                   \<and> (\<forall>g \<in> set groups'. \<forall>p \<in> set g. in_range dt dl p)"
proof -
  from t have elem: "elem_at dt t = Inr (dt ! nat t)"
    by (simp add: elem_at_def)
  have "\<forall>lig \<in> set kept. in_range dt dl (t, snd lig)"
    using ranked_candidates_entries [OF ranked] t by (simp add: in_range_def)
  from candidates_loop_returns [OF fit this groups] elem ranked show ?thesis
    by (simp add: target_step_def)
qed

lemma targets_loop_returns:
  assumes fit: "distances_fit dt" "distances_fit dl"
    and ranked: "\<forall>t < length dt. \<exists>kept. ranked_candidates P (dt ! t) dl = Inr kept"
  shows "\<forall>t \<in> set ts. 0 \<le> t \<and> t < int (length dt) \<Longrightarrow>
         \<forall>g \<in> set groups. \<forall>p \<in> set g. in_range dt dl p \<Longrightarrow>
         \<exists>groups'. targets_loop P dt dl ts groups = Inr groups'"
proof (induction ts arbitrary: groups)
  case Nil
  then show ?case by simp
next
  case (Cons t ts)
  from Cons.prems(1) have t: "0 \<le> t" "t < int (length dt)"
    by simp_all
  then have "nat t < length dt"
    by simp
  with ranked obtain kept where "ranked_candidates P (dt ! nat t) dl = Inr kept"
    by blast
  from target_step_returns [OF fit t this Cons.prems(2)] obtain gs where
    step: "target_step P dt dl t groups = Inr gs"
    and gs: "\<forall>g \<in> set gs. \<forall>p \<in> set g. in_range dt dl p"
    by blast
  from Cons.prems(1) have "\<forall>t \<in> set ts. 0 \<le> t \<and> t < int (length dt)"
    by simp
  from Cons.IH [OF this gs] step show ?case
    by simp
qed

lemma build_matching_groups_returns:
  assumes "distances_fit desc_target" "distances_fit desc_ligand"
    and "\<forall>t < length desc_target.
           \<exists>kept. ranked_candidates P (desc_target ! t) desc_ligand = Inr kept"
    and "\<forall>g \<in> set groups_in. \<forall>p \<in> set g. in_range desc_target desc_ligand p"
  shows "\<exists>groups_out. build_matching_groups P desc_target desc_ligand groups_in = Inr groups_out"
  unfolding build_matching_groups_def
  by (rule targets_loop_returns [OF assms(1-3) _ assms(4)]) auto

section \<open>The Transform Estimator: one matrix per group\<close>

lemma group_transformation_Inr:
  assumes "group_transformation cc target dt ligand dl MG = Inr m"
  shows "\<exists>tcloud tnormal lcloud lnormal.
           build_cloud_from_group (map fst MG) dt target = Inr (tcloud, tnormal) \<and>
           build_cloud_from_group (map snd MG) dl ligand = Inr (lcloud, lnormal) \<and>
           m = final_transformation (cc tcloud) (cc lcloud) lnormal tnormal"
  using assms
  by (auto simp: group_transformation_def Let_def split: sum.splits prod.splits)

lemma transformations_loop_Inr:
  "transformations_loop cc target dt ligand dl groups acc = Inr out \<Longrightarrow>
   \<exists>ms. out = acc @ ms \<and> map (group_transformation cc target dt ligand dl) groups = map Inr ms"
proof (induction groups arbitrary: acc)
  case Nil
  then show ?case by simp
next
  case (Cons MG rest)
  then obtain m where m: "group_transformation cc target dt ligand dl MG = Inr m"
    and rest: "transformations_loop cc target dt ligand dl rest (acc @ [m]) = Inr out"
    by (auto split: sum.splits)
  from Cons.IH [OF rest] obtain ms where "out = (acc @ [m]) @ ms"
    "map (group_transformation cc target dt ligand dl) rest = map Inr ms"
    by blast
  with m have "out = acc @ (m # ms) \<and>
      map (group_transformation cc target dt ligand dl) (MG # rest) = map Inr (m # ms)"
    by simp
  then show ?case by blast
qed

lemma transformations_Inr:
  assumes "transformations_from_matching_groups cc groups target dt ligand dl init = Inr out"
  shows "length out = length init + length groups"
    and "take (length init) out = init"
    and "i < length groups \<Longrightarrow>
         group_transformation cc target dt ligand dl (groups ! i) = Inr (out ! (length init + i))"
proof -
  from assms obtain ms where out: "out = init @ ms"
    and ms: "map (group_transformation cc target dt ligand dl) groups = map Inr ms"
    unfolding transformations_from_matching_groups_def
    by (blast dest: transformations_loop_Inr)
  from ms have len: "length ms = length groups"
    by (metis length_map)
  with out show "length out = length init + length groups" by simp
  from out show "take (length init) out = init" by simp
  assume i: "i < length groups"
  with ms have "group_transformation cc target dt ligand dl (groups ! i) = map Inr ms ! i"
    by (metis nth_map)
  with i len out show "group_transformation cc target dt ligand dl (groups ! i) = Inr (out ! (length init + i))"
    by simp
qed

text \<open>
  On numbers whose dot product is in the domain of \<open>acos\<close>, lines 197 to 213 compute the
  matrix that the specification describes: the matrix of the quaternion in the upper left
  block, and the target centroid minus the image of the ligand centroid in the last column.
\<close>

lemma mat4_cast_numbers:
  "mat4_cast (Quat (Num w) (Num x) (Num y) (Num z))
   = affine_matrix (quaternion_matrix (RQuat w (RVec3 x y z))) (RVec3 0 0 0)"
  by (simp add: mat4_cast_def quaternion_matrix_def affine_matrix_def num_direction_def
      num_point_def dsub_def Let_def)

lemma translations_affine:
  "mat4_mul (mat4_mul (glm_translate mat4_identity (num_vec target_centroid))
                      (affine_matrix m (RVec3 0 0 0)))
            (glm_translate mat4_identity (vec_neg (num_vec ligand_centroid)))
   = affine_matrix m (rsub target_centroid (rapply m ligand_centroid))"
proof -
  obtain a b c d e f g h i where m: "m = RMat3 (RVec3 a b c) (RVec3 d e f) (RVec3 g h i)"
    by (cases m; cases "rcol0 m"; cases "rcol1 m"; cases "rcol2 m") auto
  show ?thesis
    unfolding m
    by (simp add: mat4_mul_def mat4_apply_def glm_translate_def mat4_identity_def
        affine_matrix_def num_vec_def num_point_def num_direction_def vec_neg_def
        vec4_add_def vec4_scale_def rapply_def radd_def rsub_def rscale_def)
qed

lemma final_transformation_numbers:
  assumes "- 1 \<le> rdot ligand_normal target_normal" "rdot ligand_normal target_normal \<le> 1"
  shows "final_transformation (num_vec target_centroid) (num_vec ligand_centroid)
           (num_vec ligand_normal) (num_vec target_normal)
         = spec_transformation target_centroid ligand_centroid ligand_normal target_normal"
proof -
  have dot: "glm_dot (num_vec ligand_normal) (num_vec target_normal)
             = Num (rdot ligand_normal target_normal)"
    by (simp add: glm_dot_def num_vec_def rdot_def)
  have cross: "glm_cross (num_vec ligand_normal) (num_vec target_normal)
               = num_vec (rcross ligand_normal target_normal)"
    by (simp add: glm_cross_def num_vec_def rcross_def dsub_def)
  define angle where "angle = spec_rotation_angle ligand_normal target_normal"
  from assms have "ddiv (dadd (dacos (Num (rdot ligand_normal target_normal))) (Num pi)) (Num 2)
             = Num angle"
    by (simp add: angle_def spec_rotation_angle_def)
  then have "final_transformation (num_vec target_centroid) (num_vec ligand_centroid)
               (num_vec ligand_normal) (num_vec target_normal)
             = mat4_mul (mat4_mul (glm_translate mat4_identity (num_vec target_centroid))
                  (affine_matrix (quaternion_matrix (spec_quaternion ligand_normal target_normal))
                     (RVec3 0 0 0)))
                 (glm_translate mat4_identity (vec_neg (num_vec ligand_centroid)))"
    unfolding final_transformation_def dot cross
    by (simp add: Let_def num_vec_def mat4_cast_numbers spec_quaternion_def rscale_def
        angle_def)
  then show ?thesis
    by (simp add: translations_affine spec_transformation_def Let_def)
qed

text \<open>The matrix sends a point \<open>p\<close> to \<open>targetCentroid + M (p - ligandCentroid)\<close>.\<close>

lemma spec_transformation_acts:
  "mat4_apply (spec_transformation target_centroid ligand_centroid ligand_normal target_normal)
     (num_point p)
   = num_point (radd target_centroid
       (rapply (quaternion_matrix (spec_quaternion ligand_normal target_normal))
          (rsub p ligand_centroid)))"
  by (simp add: spec_transformation_def affine_matrix_def num_point_def num_direction_def
      mat4_apply_def vec4_add_def vec4_scale_def rapply_def radd_def rsub_def rscale_def
      Let_def algebra_simps)

text \<open>
  The matrix of a quaternion is a rotation matrix when the quaternion has norm one, which
  the quaternion of line 203 has when the normals are unit vectors orthogonal to each other
  or opposite to each other, and not in general.
\<close>

lemma unit_quaternion_orthonormal:
  assumes "quaternion_norm2 q = 1"
  shows "orthonormal (quaternion_matrix q)"
proof -
  obtain w x y z where q: "q = RQuat w (RVec3 x y z)"
    by (cases q; cases "rvec q") auto
  from assms q have n: "w * w + (x * x + y * y + z * z) = 1"
    by (simp add: quaternion_norm2_def rdot_def)
  have "(1 - 2 * (y * y + z * z)) * (1 - 2 * (y * y + z * z))
        + 2 * (x * y + w * z) * (2 * (x * y + w * z))
        + 2 * (x * z - w * y) * (2 * (x * z - w * y)) = 1"
    using n by algebra
  moreover have "2 * (x * y - w * z) * (2 * (x * y - w * z))
        + (1 - 2 * (x * x + z * z)) * (1 - 2 * (x * x + z * z))
        + 2 * (y * z + w * x) * (2 * (y * z + w * x)) = 1"
    using n by algebra
  moreover have "2 * (x * z + w * y) * (2 * (x * z + w * y))
        + 2 * (y * z - w * x) * (2 * (y * z - w * x))
        + (1 - 2 * (x * x + y * y)) * (1 - 2 * (x * x + y * y)) = 1"
    using n by algebra
  moreover have "(1 - 2 * (y * y + z * z)) * (2 * (x * y - w * z))
        + 2 * (x * y + w * z) * (1 - 2 * (x * x + z * z))
        + 2 * (x * z - w * y) * (2 * (y * z + w * x)) = 0"
    using n by algebra
  moreover have "(1 - 2 * (y * y + z * z)) * (2 * (x * z + w * y))
        + 2 * (x * y + w * z) * (2 * (y * z - w * x))
        + 2 * (x * z - w * y) * (1 - 2 * (x * x + y * y)) = 0"
    using n by algebra
  moreover have "2 * (x * y - w * z) * (2 * (x * z + w * y))
        + (1 - 2 * (x * x + z * z)) * (2 * (y * z - w * x))
        + 2 * (y * z + w * x) * (1 - 2 * (x * x + y * y)) = 0"
    using n by algebra
  ultimately show ?thesis
    by (simp add: q orthonormal_def quaternion_matrix_def rdot_def Let_def)
qed

text \<open>The function returns on meshes without NaN whose indices are all in range.\<close>

lemma group_transformation_returns:
  assumes "mesh_ok desc_target target" "mesh_ok desc_ligand ligand"
    and "\<forall>p \<in> set MG. in_range desc_target desc_ligand p"
  shows "\<exists>m. group_transformation cc target desc_target ligand desc_ligand MG = Inr m"
proof -
  from assms(3) have "\<forall>i \<in> set (map fst MG). 0 \<le> i \<and> i < int (length desc_target)"
    "\<forall>i \<in> set (map snd MG). 0 \<le> i \<and> i < int (length desc_ligand)"
    by (auto simp: in_range_def)
  with assms(1,2) obtain r1 r2 where
    "build_cloud_from_group (map fst MG) desc_target target = Inr r1"
    "build_cloud_from_group (map snd MG) desc_ligand ligand = Inr r2"
    using build_cloud_from_group_returns by blast
  then show ?thesis
    by (cases r1; cases r2) (simp add: group_transformation_def Let_def)
qed

lemma transformations_returns:
  assumes "mesh_ok desc_target target" "mesh_ok desc_ligand ligand"
    and "\<forall>MG \<in> set matching_groups. \<forall>p \<in> set MG. in_range desc_target desc_ligand p"
  shows "\<exists>mg_out. transformations_from_matching_groups cloud_centroid matching_groups target
                     desc_target ligand desc_ligand mg_in = Inr mg_out"
  unfolding transformations_from_matching_groups_def
  using assms(3)
proof (induction matching_groups arbitrary: mg_in)
  case Nil
  then show ?case by simp
next
  case (Cons MG rest)
  from Cons.prems have "\<forall>p \<in> set MG. in_range desc_target desc_ligand p"
    by simp
  from group_transformation_returns [OF assms(1,2) this] obtain m where
    "group_transformation cloud_centroid target desc_target ligand desc_ligand MG = Inr m"
    by blast
  moreover from Cons.prems
  have "\<forall>MG \<in> set rest. \<forall>p \<in> set MG. in_range desc_target desc_ligand p"
    by simp
  from Cons.IH [OF this, of "mg_in @ [m]"] obtain mg_out where
    "transformations_loop cloud_centroid target desc_target ligand desc_ligand rest
       (mg_in @ [m]) = Inr mg_out"
    by blast
  ultimately show ?case
    by simp
qed

section \<open>The functions on the example surfaces\<close>

lemma sqrt_nine_quarters: "sqrt (9 / 4) = 3 / 2"
  using real_sqrt_abs2 [of "3 / 2"] by simp

lemma near_params_simps [simp]: "N_BEST_PAIRS near_params = 1" "G_THRESH near_params = 2"
  by (simp_all add: near_params_def)

lemma elem_two_patches:
  "elem_at (two_patches c) 0 = Inr (first_patch c)"
  "elem_at (two_patches c) 1 = Inr (second_patch c)"
  by (simp_all add: elem_at_def two_patches_def)

lemma targets_two_patches: "map int [0..<length (two_patches c)] = [0, 1]"
  by (simp add: two_patches_def upt_rec)

lemma distance_two_patches:
  "geodesic_distance i j (two_patches c) =
     (if (i = 0 \<or> i = 1) \<and> (j = 0 \<or> j = 1) then Inr (if i = j then 0 else 1)
      else Inl IndexOutOfRange)"
  by (auto simp: geodesic_distance_def elem_at_def two_patches_def first_patch_def
      second_patch_def patch_at_def vec3_def glm_length_def glm_dot_def vec_sub_def dsub_def
      double_to_int_def sqrt_nine_quarters)

lemma scores_two_patches:
  "similarity_loop (first_patch Convex) (two_patches Concave) 0 = [(Num 0, 0), (Num (1 / 2), 1)]"
  "similarity_loop (second_patch Convex) (two_patches Concave) 0 = [(Num (1 / 2), 0), (Num 0, 1)]"
  by (simp_all add: two_patches_def first_patch_def second_patch_def descriptor_def
      dissimilarity_def dsub_def dmax_def)

lemma sort_two_patches:
  "std_sort std_pair_less [(Num 0, 0), (Num (1 / 2), 1)] = Inr [(Num 0, 0), (Num (1 / 2), 1)]"
  "std_sort std_pair_less [(Num (1 / 2), 0), (Num 0, 1)] = Inr [(Num 0, 1), (Num (1 / 2), 0)]"
  by (simp_all add: std_sort_def strict_weak_on_def std_pair_less_def)

lemma ranked_two_patches:
  "ranked_candidates near_params (first_patch Convex) (two_patches Concave) = Inr [(Num 0, 0)]"
  "ranked_candidates near_params (second_patch Convex) (two_patches Concave) = Inr [(Num 0, 1)]"
  by (simp_all add: ranked_candidates_def scores_two_patches sort_two_patches erase_from_def)

lemma step_two_patches:
  "target_step near_params (two_patches Convex) (two_patches Concave) 0 [] = Inr [[(0, 0)]]"
  "target_step near_params (two_patches Convex) (two_patches Concave) 1 [[(0, 0)]]
     = Inr [[(0, 0), (1, 1)]]"
  "target_step near_params (two_patches Convex) (two_patches Concave) 0 [[(1, 0)]]
     = Inr [[(1, 0), (0, 0)]]"
  "target_step near_params (two_patches Convex) (two_patches Concave) 1 [[(1, 0), (0, 0)]]
     = Inr [[(1, 0), (0, 0), (1, 1)]]"
  by (simp_all add: target_step_def elem_two_patches ranked_two_patches group_pair_def
      distance_two_patches)


lemma build_two_patches_init:
  "build_matching_groups near_params (two_patches Convex) (two_patches Concave) [[(1, 0)]]
     = Inr [[(1, 0), (0, 0), (1, 1)]]"
  by (simp add: build_matching_groups_def targets_two_patches step_two_patches)


lemma comp_point_vec3:
  "comp_point (vec3 a b c) (vec3 a' b' c') =
     (a < a' \<or> (a = a' \<and> (b < b' \<or> (b = b' \<and> c < c'))))"
  by (auto simp: comp_point_def vec3_def deq_def)

lemma nodes_triangle:
  "get_node (triangle_mesh h) 0 = Inr (node_at (vec3 0 0 h))"
  "get_node (triangle_mesh h) 1 = Inr (node_at (vec3 2 0 h))"
  "get_node (triangle_mesh h) 2 = Inr (node_at (vec3 0 2 h))"
  by (simp_all add: get_node_def elem_at_def triangle_mesh_def)

lemma node_pos_node_at [simp]: "node_pos (node_at p) = p"
  by (simp add: node_at_def)

lemma insert_edge0:
  "insert_patch_nodes (triangle_mesh h) [0, 1] [] = Inr [vec3 0 0 h, vec3 2 0 h]"
  by (simp add: nodes_triangle std_set_insert_def strict_weak_on_def comp_point_vec3)

lemma insert_edge1:
  "insert_patch_nodes (triangle_mesh h) [1, 2] [vec3 0 0 h, vec3 2 0 h]
     = Inr [vec3 0 0 h, vec3 0 2 h, vec3 2 0 h]"
  by (simp add: nodes_triangle std_set_insert_def strict_weak_on_def comp_point_vec3)

lemma cloud_edge_patches:
  "build_cloud_from_group [0, 1] (edge_patches t) (triangle_mesh h)
     = Inr ([vec3 0 0 h, vec3 0 2 h, vec3 2 0 h], vec3 0 0 1)"
proof -
  have "cloud_loop (edge_patches t) (triangle_mesh h) [0, 1] [] (Vec3 (Num 0) (Num 0) (Num 0))
      = Inr ([vec3 0 0 h, vec3 0 2 h, vec3 2 0 h], vec3 0 0 2)"
    by (simp add: edge_patches_def elem_at_def patch_at_def insert_edge0 insert_edge1
        vec3_def [of 0 0 1] vec3_def [of 0 0 2] vec_add_def del: insert_patch_nodes.simps)
  then show ?thesis
    by (simp add: build_cloud_from_group_def)
       (simp add: vec3_def vec_scale_def glm_normalize_def glm_dot_def glm_inversesqrt_def)
qed


lemma mean_triangle:
  "mean_point [vec3 0 0 h, vec3 0 2 h, vec3 2 0 h] = vec3 (2 / 3) (2 / 3) h"
  by (simp add: mean_point_def vec3_def vec_add_def vec_scale_def)

lemma transformation_triangle:
  "final_transformation (vec3 (2 / 3) (2 / 3) 0) (vec3 (2 / 3) (2 / 3) 3) (vec3 0 0 1) (vec3 0 0 1)
     = translation 0 0 (- 3)"
  by (simp add: final_transformation_def vec3_def glm_cross_def glm_dot_def dsub_def
      mat4_cast_def mat4_identity_def glm_translate_def vec_neg_def mat4_mul_def
      mat4_apply_def vec4_add_def vec4_scale_def translation_def Let_def)

lemma group_transformation_triangle:
  "group_transformation mean_point (triangle_mesh 0) (edge_patches Convex) (triangle_mesh 3)
     (edge_patches Concave) [(0, 0), (1, 1)] = Inr (translation 0 0 (- 3))"
  by (simp add: group_transformation_def cloud_edge_patches mean_triangle
      transformation_triangle)

lemma cloud_first_edge:
  "build_cloud_from_group [0] (edge_patches t) (triangle_mesh h)
     = Inr ([vec3 0 0 h, vec3 2 0 h], vec3 0 0 1)"
proof -
  have "cloud_loop (edge_patches t) (triangle_mesh h) [0] [] (Vec3 (Num 0) (Num 0) (Num 0))
      = Inr ([vec3 0 0 h, vec3 2 0 h], vec3 0 0 1)"
    by (simp add: edge_patches_def elem_at_def patch_at_def insert_edge0
        vec3_def [of 0 0 1] vec_add_def del: insert_patch_nodes.simps)
  then show ?thesis
    by (simp add: build_cloud_from_group_def)
       (simp add: vec3_def vec_scale_def glm_normalize_def glm_dot_def glm_inversesqrt_def)
qed

lemma cloud_second_edge:
  "build_cloud_from_group [1] (edge_patches t) (triangle_mesh h)
     = Inr ([vec3 0 2 h, vec3 2 0 h], vec3 0 0 1)"
proof -
  have "insert_patch_nodes (triangle_mesh h) [1, 2] [] = Inr [vec3 0 2 h, vec3 2 0 h]"
    by (simp add: nodes_triangle std_set_insert_def strict_weak_on_def comp_point_vec3)
  then have "cloud_loop (edge_patches t) (triangle_mesh h) [1] [] (Vec3 (Num 0) (Num 0) (Num 0))
      = Inr ([vec3 0 2 h, vec3 2 0 h], vec3 0 0 1)"
    by (simp add: edge_patches_def elem_at_def patch_at_def
        vec3_def [of 0 0 1] vec_add_def del: insert_patch_nodes.simps)
  then show ?thesis
    by (simp add: build_cloud_from_group_def)
       (simp add: vec3_def vec_scale_def glm_normalize_def glm_dot_def glm_inversesqrt_def)
qed

lemma mean_edges:
  "mean_point [vec3 0 0 h, vec3 2 0 h] = vec3 1 0 h"
  "mean_point [vec3 0 2 h, vec3 2 0 h] = vec3 1 1 h"
  by (simp_all add: mean_point_def vec3_def vec_add_def vec_scale_def)

lemma transformation_edges:
  "final_transformation (vec3 1 0 0) (vec3 1 1 3) (vec3 0 0 1) (vec3 0 0 1)
     = translation 0 (- 1) (- 3)"
  by (simp add: final_transformation_def vec3_def glm_cross_def glm_dot_def dsub_def
      mat4_cast_def mat4_identity_def glm_translate_def vec_neg_def mat4_mul_def
      mat4_apply_def vec4_add_def vec4_scale_def translation_def Let_def)

lemma group_transformation_edges:
  "group_transformation mean_point (triangle_mesh 0) (edge_patches Convex) (triangle_mesh 3)
     (edge_patches Concave) [(0, 1)] = Inr (translation 0 (- 1) (- 3))"
  by (simp add: group_transformation_def cloud_first_edge cloud_second_edge mean_edges
      transformation_edges)

lemma transformations_triangle:
  "transformations_from_matching_groups mean_point [[(0, 0), (1, 1)], [(0, 1)]]
     (triangle_mesh 0) (edge_patches Convex) (triangle_mesh 3) (edge_patches Concave)
     [mat4_identity]
   = Inr [mat4_identity, translation 0 0 (- 3), translation 0 (- 1) (- 3)]"
  by (simp add: transformations_from_matching_groups_def group_transformation_triangle
      group_transformation_edges)

text \<open>Normals 60 degrees apart. The angle is \<open>2 pi / 3\<close>, the quaternion is
  \<open>(-1/2, 0, 0, 3/4)\<close>, of squared norm \<open>13/16\<close>.\<close>

lemma vec3_num_vec: "vec3 a b c = num_vec (RVec3 a b c)"
  by (simp add: vec3_def num_vec_def)

lemma cloud_facing:
  "build_cloud_from_group [0] (facing_patch (num_vec n) t) (triangle_mesh h)
     = Inr ([vec3 0 0 h, vec3 2 0 h], glm_normalize (num_vec n))"
proof -
  have "cloud_loop (facing_patch (num_vec n) t) (triangle_mesh h) [0] []
          (Vec3 (Num 0) (Num 0) (Num 0))
      = Inr ([vec3 0 0 h, vec3 2 0 h], num_vec n)"
    by (simp add: facing_patch_def elem_at_def patch_at_def insert_edge0
        num_vec_def vec_add_def del: insert_patch_nodes.simps)
  then show ?thesis
    by (simp add: build_cloud_from_group_def) (simp add: num_vec_def vec_scale_def)
qed

lemma normalize_unit:
  assumes "rdot n n = 1"
  shows "glm_normalize (num_vec n) = num_vec n"
  using assms
  by (simp add: num_vec_def rdot_def glm_normalize_def glm_dot_def glm_inversesqrt_def
      vec_scale_def)

lemma group_transformation_facing:
  assumes "rdot ligand_normal ligand_normal = 1" "rdot target_normal target_normal = 1"
  shows "group_transformation mean_point (triangle_mesh 0)
           (facing_patch (num_vec target_normal) Convex) (triangle_mesh 3)
           (facing_patch (num_vec ligand_normal) Concave) [(0, 0)]
         = Inr (final_transformation (num_vec (RVec3 1 0 0)) (num_vec (RVec3 1 0 3))
                  (num_vec ligand_normal) (num_vec target_normal))"
  by (simp add: group_transformation_def cloud_facing normalize_unit [OF assms(1)]
      normalize_unit [OF assms(2)] mean_edges vec3_num_vec [symmetric])

lemma unit_examples:
  "rdot (RVec3 1 0 0) (RVec3 1 0 0) = 1"
  "rdot sixty_degrees sixty_degrees = 1"
  "rdot (RVec3 1 0 0) sixty_degrees = 1 / 2"
  by (simp_all add: rdot_def sixty_degrees_def)

lemma quaternion_sixty_degrees:
  "spec_quaternion (RVec3 1 0 0) sixty_degrees = RQuat (- 1 / 2) (RVec3 0 0 (3 / 4))"
proof -
  have angle: "spec_rotation_angle (RVec3 1 0 0) sixty_degrees = 2 * pi / 3"
    by (simp add: spec_rotation_angle_def rdot_def sixty_degrees_def arccos_one_half)
  show ?thesis
    unfolding spec_quaternion_def Let_def angle
    by (simp add: rcross_def rscale_def sixty_degrees_def cos_120 sin_120)
qed

lemma matrix_sixty_degrees:
  "quaternion_matrix (spec_quaternion (RVec3 1 0 0) sixty_degrees)
     = RMat3 (RVec3 (- 1 / 8) (- 3 / 4) 0) (RVec3 (3 / 4) (- 1 / 8) 0) (RVec3 0 0 1)"
  by (simp add: quaternion_sixty_degrees quaternion_matrix_def)

lemma transformation_sixty_degrees:
  "spec_transformation (RVec3 1 0 0) (RVec3 1 0 3) (RVec3 1 0 0) sixty_degrees
     = Mat4 (Vec4 (Num (- 1 / 8)) (Num (- 3 / 4)) (Num 0) (Num 0))
            (Vec4 (Num (3 / 4)) (Num (- 1 / 8)) (Num 0) (Num 0))
            (Vec4 (Num 0) (Num 0) (Num 1) (Num 0))
            (Vec4 (Num (9 / 8)) (Num (3 / 4)) (Num (- 3)) (Num 1))"
  by (simp add: spec_transformation_def matrix_sixty_degrees rapply_def rsub_def radd_def
      rscale_def affine_matrix_def num_direction_def num_point_def)

lemma transformations_sixty_degrees:
  "transformations_from_matching_groups mean_point [[(0, 0)]] (triangle_mesh 0)
     (facing_patch (num_vec sixty_degrees) Convex) (triangle_mesh 3)
     (facing_patch (num_vec (RVec3 1 0 0)) Concave) []
   = Inr [Mat4 (Vec4 (Num (- 1 / 8)) (Num (- 3 / 4)) (Num 0) (Num 0))
               (Vec4 (Num (3 / 4)) (Num (- 1 / 8)) (Num 0) (Num 0))
               (Vec4 (Num 0) (Num 0) (Num 1) (Num 0))
               (Vec4 (Num (9 / 8)) (Num (3 / 4)) (Num (- 3)) (Num 1))]"
  by (simp add: transformations_from_matching_groups_def
      group_transformation_facing [OF unit_examples(1) unit_examples(2)]
      final_transformation_numbers unit_examples transformation_sixty_degrees)

lemma scores_three_ligands:
  "similarity_loop (first_patch Convex) three_ligands 0
     = [(Num (1 / 2), 0), (Num 0, 1), (Num (1 / 2), 2)]"
  by (simp add: three_ligands_def first_patch_def second_patch_def descriptor_def
      dissimilarity_def dsub_def dmax_def)

lemma ranked_three_ligands:
  "ranked_candidates \<lparr>N_BEST_PAIRS = 3, G_THRESH = 2\<rparr> (first_patch Convex) three_ligands
     = Inr [(Num 0, 1), (Num (1 / 2), 0), (Num (1 / 2), 2)]"
proof -
  have "strict_weak_on std_pair_less [(Num (1 / 2), 0), (Num 0, 1), (Num (1 / 2), 2)]"
    by (rule strict_weak_on_std_pair_less) simp
  then have "std_sort std_pair_less [(Num (1 / 2), 0), (Num 0, 1), (Num (1 / 2), 2)]
      = Inr [(Num 0, 1), (Num (1 / 2), 0), (Num (1 / 2), 2)]"
    by (simp add: std_sort_def std_pair_less_def)
  then show ?thesis
    by (simp add: ranked_candidates_def scores_three_ligands erase_from_def)
qed

section \<open>The grouping of the ranked pairs\<close>



section \<open>The distance of the threshold test\<close>

text \<open>
  C2. The distance that \<open>geodesic_distance\<close> hands to the threshold test is not the
  Euclidean distance of the two representative positions: the function returns \<open>int\<close>,
  so the length is cut to its integer part. For two patches 1.5 apart the function
  returns 1, and with \<open>G_THRESH = 1\<close> the pair of target patch 1 joins the group of target
  patch 0, although the Euclidean distance 1.5 exceeds the threshold.
\<close>

theorem geodesic_distance_truncates:
  "glm_length (vec_sub (patch_pos (fst (first_patch Convex)))
                       (patch_pos (fst (second_patch Convex)))) = Num (3 / 2)
   \<and> geodesic_distance 0 1 (two_patches Convex) = Inr 1
   \<and> group_pair \<lparr>N_BEST_PAIRS = 1, G_THRESH = 1\<rparr> (two_patches Convex) (two_patches Concave)
        (1, 0) [[(0, 0)]] = Inr [[(0, 0), (1, 0)]]"
proof -
  have "glm_length (vec_sub (vec3 0 0 0) (vec3 (3 / 2) 0 0)) = Num (3 / 2)"
    by (simp add: vec3_def glm_length_def glm_dot_def vec_sub_def dsub_def sqrt_nine_quarters)
  moreover have "group_pair \<lparr>N_BEST_PAIRS = 1, G_THRESH = 1\<rparr> (two_patches Convex)
      (two_patches Concave) (1, 0) [[(0, 0)]] = Inr [[(0, 0), (1, 0)]]"
    by (simp add: group_pair_def distance_two_patches)
  ultimately show ?thesis
    by (simp add: first_patch_def second_patch_def patch_at_def distance_two_patches)
qed

section \<open>The candidates kept per target patch\<close>

text \<open>
  C3. The removal step is not guarded. With two eligible ligand patches and
  \<open>N_BEST_PAIRS = 3\<close>, line 113 asks to erase from \<open>begin() + 3\<close>, an iterator behind the
  end of the two-element list: the ranking does not keep the two candidates, the call is
  undefined. (Lemma \<open>ranked_candidates_too_few\<close>: so it is whenever \<open>N_BEST_PAIRS\<close> exceeds
  the number of eligible candidates.)
\<close>

theorem erase_beyond_end:
  "length (similarity_loop (first_patch Convex) (two_patches Concave) 0) = 2
   \<and> ranked_candidates \<lparr>N_BEST_PAIRS = 3, G_THRESH = 1\<rparr> (first_patch Convex)
        (two_patches Concave) = Inl EraseOutOfRange
   \<and> build_matching_groups \<lparr>N_BEST_PAIRS = 3, G_THRESH = 1\<rparr> (two_patches Convex)
        (two_patches Concave) [] = Inl EraseOutOfRange"
proof -
  have ranked: "ranked_candidates \<lparr>N_BEST_PAIRS = 3, G_THRESH = 1\<rparr> (first_patch Convex)
      (two_patches Concave) = Inl EraseOutOfRange"
    by (simp add: ranked_candidates_def scores_two_patches sort_two_patches erase_from_def)
  then have "target_step \<lparr>N_BEST_PAIRS = 3, G_THRESH = 1\<rparr> (two_patches Convex)
      (two_patches Concave) 0 [] = Inl EraseOutOfRange"
    by (simp add: target_step_def elem_two_patches)
  then have "build_matching_groups \<lparr>N_BEST_PAIRS = 3, G_THRESH = 1\<rparr> (two_patches Convex)
      (two_patches Concave) [] = Inl EraseOutOfRange"
    by (simp add: build_matching_groups_def targets_two_patches)
  with ranked show ?thesis
    by (simp add: scores_two_patches)
qed

section \<open>The score of a pair of flat patches\<close>

text \<open>
  C4. The score is not guarded. For a target patch and a ligand patch of different classes
  and curvature zero, line 101 divides \<open>fabs(0 - 0)\<close> by \<open>max(0, 0)\<close>: the score is NaN, the
  pair \<open>(NaN, 0)\<close> enters the similarity list, is kept by the ranking, and the pair of
  patches is grouped. (Lemma \<open>dissimilarity_zero_curvatures\<close>: the score of two zero
  curvatures is always NaN.)
\<close>

theorem zero_curvature_score_is_nan:
  "dissimilarity (snd (zero_curvature_patch Convex)) (snd (zero_curvature_patch Concave)) = NaN
   \<and> similarity_loop (zero_curvature_patch Convex) [zero_curvature_patch Concave] 0 = [(NaN, 0)]
   \<and> ranked_candidates \<lparr>N_BEST_PAIRS = 1, G_THRESH = 1\<rparr> (zero_curvature_patch Convex)
        [zero_curvature_patch Concave] = Inr [(NaN, 0)]
   \<and> build_matching_groups \<lparr>N_BEST_PAIRS = 1, G_THRESH = 1\<rparr> [zero_curvature_patch Convex]
        [zero_curvature_patch Concave] [] = Inr [[(0, 0)]]"
proof -
  have score:
    "dissimilarity (snd (zero_curvature_patch Convex)) (snd (zero_curvature_patch Concave)) = NaN"
    by (simp add: zero_curvature_patch_def descriptor_def dissimilarity_def dsub_def dmax_def)
  then have list:
    "similarity_loop (zero_curvature_patch Convex) [zero_curvature_patch Concave] 0 = [(NaN, 0)]"
    by (simp add: zero_curvature_patch_def descriptor_def)
  then have ranked: "ranked_candidates \<lparr>N_BEST_PAIRS = 1, G_THRESH = 1\<rparr>
      (zero_curvature_patch Convex) [zero_curvature_patch Concave] = Inr [(NaN, 0)]"
    by (simp add: ranked_candidates_def std_sort_def strict_weak_on_def std_pair_less_def
        erase_from_def)
  then have "target_step \<lparr>N_BEST_PAIRS = 1, G_THRESH = 1\<rparr> [zero_curvature_patch Convex]
      [zero_curvature_patch Concave] 0 [] = Inr [[(0, 0)]]"
    by (simp add: target_step_def elem_at_def group_pair_def)
  then have "build_matching_groups \<lparr>N_BEST_PAIRS = 1, G_THRESH = 1\<rparr>
      [zero_curvature_patch Convex] [zero_curvature_patch Concave] [] = Inr [[(0, 0)]]"
    by (simp add: build_matching_groups_def)
  with score list ranked show ?thesis
    by simp
qed

section \<open>The transformation appended per group\<close>

text \<open>
  C5. The matrix between the two translations is not a rotation matrix. The comment of
  lines 187 to 193 says that the quaternion is turned into the rotation matrix that is
  equivalent to it; \<open>mat4_cast\<close> gives a rotation matrix for a quaternion of norm one only,
  and the quaternion of line 203 is not normalized. For one group, a target patch whose
  normal is the unit vector at 60 degrees from the x axis and a ligand patch whose normal is
  the x axis, the quaternion has the squared norm \<open>13/16\<close> and the matrix that
  \<open>transformations_from_matching_groups\<close> appends has the upper left block of columns
  \<open>(-1/8, -3/4, 0)\<close>, \<open>(3/4, -1/8, 0)\<close> and \<open>(0, 0, 1)\<close>: the first column has the squared
  length \<open>37/64\<close>, the block is not orthonormal. The matrix sends the ligand centroid
  \<open>(1, 0, 3)\<close> to the target centroid \<open>(1, 0, 0)\<close>, and the ligand vertex \<open>(2, 0, 3)\<close>, one unit
  from the ligand centroid, to \<open>(7/8, -3/4, 0)\<close>, whose squared distance from the target
  centroid is \<open>37/64\<close>: the cloud is deformed, as the note of line 194 says.
  (The rest of the claim holds. Lemma \<open>transformations_Inr\<close>: one matrix is appended per
  group, in the order of the groups. Lemmas \<open>group_transformation_Inr\<close> and
  \<open>final_transformation_numbers\<close>: on numbers, the matrix is the one of the map that sends
  \<open>p\<close> to \<open>targetCentroid + M (p - ligandCentroid)\<close>, where \<open>M\<close> has the entries that
  \<open>quaternion_matrix\<close> gives for the quaternion with the angle and the axis of the claim.
  Lemma \<open>unit_quaternion_orthonormal\<close>: \<open>M\<close> is orthonormal when the quaternion has norm
  one.)
\<close>

theorem aligning_matrix_deforms:
  "transformations_from_matching_groups mean_point [[(0, 0)]] (triangle_mesh 0)
     (facing_patch (num_vec sixty_degrees) Convex) (triangle_mesh 3)
     (facing_patch (num_vec (RVec3 1 0 0)) Concave) []
   = Inr [Mat4 (Vec4 (Num (- 1 / 8)) (Num (- 3 / 4)) (Num 0) (Num 0))
               (Vec4 (Num (3 / 4)) (Num (- 1 / 8)) (Num 0) (Num 0))
               (Vec4 (Num 0) (Num 0) (Num 1) (Num 0))
               (Vec4 (Num (9 / 8)) (Num (3 / 4)) (Num (- 3)) (Num 1))]
   \<and> rdot sixty_degrees sixty_degrees = 1
   \<and> rdot (RVec3 1 0 0) (RVec3 1 0 0) = 1
   \<and> quaternion_norm2 (spec_quaternion (RVec3 1 0 0) sixty_degrees) = 13 / 16
   \<and> quaternion_matrix (spec_quaternion (RVec3 1 0 0) sixty_degrees)
     = RMat3 (RVec3 (- 1 / 8) (- 3 / 4) 0) (RVec3 (3 / 4) (- 1 / 8) 0) (RVec3 0 0 1)
   \<and> rdot (RVec3 (- 1 / 8) (- 3 / 4) 0) (RVec3 (- 1 / 8) (- 3 / 4) 0) = 37 / 64
   \<and> \<not> orthonormal (RMat3 (RVec3 (- 1 / 8) (- 3 / 4) 0) (RVec3 (3 / 4) (- 1 / 8) 0)
                          (RVec3 0 0 1))
   \<and> mat4_apply
        (Mat4 (Vec4 (Num (- 1 / 8)) (Num (- 3 / 4)) (Num 0) (Num 0))
              (Vec4 (Num (3 / 4)) (Num (- 1 / 8)) (Num 0) (Num 0))
              (Vec4 (Num 0) (Num 0) (Num 1) (Num 0))
              (Vec4 (Num (9 / 8)) (Num (3 / 4)) (Num (- 3)) (Num 1)))
        (Vec4 (Num 1) (Num 0) (Num 3) (Num 1))
     = Vec4 (Num 1) (Num 0) (Num 0) (Num 1)
   \<and> mat4_apply
        (Mat4 (Vec4 (Num (- 1 / 8)) (Num (- 3 / 4)) (Num 0) (Num 0))
              (Vec4 (Num (3 / 4)) (Num (- 1 / 8)) (Num 0) (Num 0))
              (Vec4 (Num 0) (Num 0) (Num 1) (Num 0))
              (Vec4 (Num (9 / 8)) (Num (3 / 4)) (Num (- 3)) (Num 1)))
        (Vec4 (Num 2) (Num 0) (Num 3) (Num 1))
     = Vec4 (Num (7 / 8)) (Num (- 3 / 4)) (Num 0) (Num 1)
   \<and> glm_dot (vec_sub (vec3 2 0 3) (vec3 1 0 3)) (vec_sub (vec3 2 0 3) (vec3 1 0 3)) = Num 1
   \<and> glm_dot (vec_sub (vec3 (7 / 8) (- 3 / 4) 0) (vec3 1 0 0))
              (vec_sub (vec3 (7 / 8) (- 3 / 4) 0) (vec3 1 0 0)) = Num (37 / 64)"
proof -
  have norm: "quaternion_norm2 (spec_quaternion (RVec3 1 0 0) sixty_degrees) = 13 / 16"
    by (simp add: quaternion_sixty_degrees quaternion_norm2_def rdot_def)
  have column: "rdot (RVec3 (- 1 / 8) (- 3 / 4) 0) (RVec3 (- 1 / 8) (- 3 / 4) 0) = 37 / 64"
    by (simp add: rdot_def)
  then have block: "\<not> orthonormal (RMat3 (RVec3 (- 1 / 8) (- 3 / 4) 0)
      (RVec3 (3 / 4) (- 1 / 8) 0) (RVec3 0 0 1))"
    by (simp add: orthonormal_def)
  have centroid: "mat4_apply
        (Mat4 (Vec4 (Num (- 1 / 8)) (Num (- 3 / 4)) (Num 0) (Num 0))
              (Vec4 (Num (3 / 4)) (Num (- 1 / 8)) (Num 0) (Num 0))
              (Vec4 (Num 0) (Num 0) (Num 1) (Num 0))
              (Vec4 (Num (9 / 8)) (Num (3 / 4)) (Num (- 3)) (Num 1)))
        (Vec4 (Num 1) (Num 0) (Num 3) (Num 1))
     = Vec4 (Num 1) (Num 0) (Num 0) (Num 1)"
    by (simp add: mat4_apply_def vec4_add_def vec4_scale_def)
  have vertex: "mat4_apply
        (Mat4 (Vec4 (Num (- 1 / 8)) (Num (- 3 / 4)) (Num 0) (Num 0))
              (Vec4 (Num (3 / 4)) (Num (- 1 / 8)) (Num 0) (Num 0))
              (Vec4 (Num 0) (Num 0) (Num 1) (Num 0))
              (Vec4 (Num (9 / 8)) (Num (3 / 4)) (Num (- 3)) (Num 1)))
        (Vec4 (Num 2) (Num 0) (Num 3) (Num 1))
     = Vec4 (Num (7 / 8)) (Num (- 3 / 4)) (Num 0) (Num 1)"
    by (simp add: mat4_apply_def vec4_add_def vec4_scale_def)
  have before:
    "glm_dot (vec_sub (vec3 2 0 3) (vec3 1 0 3)) (vec_sub (vec3 2 0 3) (vec3 1 0 3)) = Num 1"
    by (simp add: glm_dot_def vec_sub_def vec3_def dsub_def)
  have after: "glm_dot (vec_sub (vec3 (7 / 8) (- 3 / 4) 0) (vec3 1 0 0))
      (vec_sub (vec3 (7 / 8) (- 3 / 4) 0) (vec3 1 0 0)) = Num (37 / 64)"
    by (simp add: glm_dot_def vec_sub_def vec3_def dsub_def)
  from transformations_sixty_degrees unit_examples(1,2) norm matrix_sixty_degrees column block
    centroid vertex before after
  show ?thesis
    by blast
qed

section \<open>The transformation of equal normals\<close>

text \<open>
  C6. Lines 197 to 213 have no branch for equal normals, and no fallback. For a target
  patch and a ligand patch of representative normal \<open>(1, 1, 1)\<close>, line 73 computes in double
  arithmetic, on both sides, the average normal of the three coordinates
  \<open>0.5773502691896258\<close>. The dot product of this vector with itself is greater than one
  (the doubles give \<open>1.0000000000000002\<close>), \<open>acos\<close> of it is NaN, and so are the angle, its
  cosine and its sine, and the quaternion: the matrix of line 209 has NaN in its upper left
  block and the composed matrix has NaN in all sixteen entries, whatever the two centroids
  are. (Where the dot product is exactly one, as for the normal \<open>(0, 0, 1)\<close>, the axis is the
  zero vector and \<open>mat4_cast\<close> gives the identity block, lemma \<open>transformation_triangle\<close>:
  which of the two the code computes for equal normals depends on the rounding of line 73.)
\<close>

theorem equal_normals_give_nan:
  "dless (Num 1) (glm_dot rounded_diagonal rounded_diagonal)
   \<and> glm_cross rounded_diagonal rounded_diagonal = vec3 0 0 0
   \<and> dacos (glm_dot rounded_diagonal rounded_diagonal) = NaN
   \<and> final_transformation target_centroid ligand_centroid rounded_diagonal rounded_diagonal
     = nan_matrix"
proof -
  have dot: "glm_dot rounded_diagonal rounded_diagonal
      = Num (3 * (5200308914369309 / 9007199254740992) * (5200308914369309 / 9007199254740992))"
    by (simp add: glm_dot_def rounded_diagonal_def vec3_def)
  have cross: "glm_cross rounded_diagonal rounded_diagonal = vec3 0 0 0"
    by (simp add: glm_cross_def rounded_diagonal_def vec3_def dsub_def)
  have acos: "dacos (glm_dot rounded_diagonal rounded_diagonal) = NaN"
    unfolding dot by simp
  have "final_transformation target_centroid ligand_centroid rounded_diagonal rounded_diagonal
      = nan_matrix"
    unfolding final_transformation_def acos cross
    by (cases target_centroid; cases ligand_centroid)
       (simp add: vec3_def mat4_cast_def mat4_identity_def glm_translate_def vec_neg_def
          mat4_mul_def mat4_apply_def vec4_add_def vec4_scale_def nan_matrix_def dsub_def
          Let_def)
  with dot cross acos show ?thesis
    by simp
qed

section \<open>The average normal of a group\<close>

text \<open>
  C7. The average normal is the sum of the normals divided by the patch count and then
  normalized (lemma \<open>build_cloud_from_group_normal\<close>), but it is not guarded. For the empty
  group, line 73 multiplies the zero sum by \<open>1.0 / 0\<close> and normalizes the result; for two
  patches with opposite normals it normalizes the zero vector. Both calls return normally,
  with an average normal whose three coordinates are NaN.
\<close>

theorem average_normal_unguarded:
  "build_cloud_from_group [] descriptors target = Inr ([], Vec3 NaN NaN NaN)
   \<and> build_cloud_from_group [0, 1] opposite_normals target = Inr ([], Vec3 NaN NaN NaN)"
proof -
  have empty: "build_cloud_from_group [] descriptors target = Inr ([], Vec3 NaN NaN NaN)"
    by (simp add: build_cloud_from_group_def vec_scale_def glm_normalize_def glm_dot_def
        glm_inversesqrt_def inf_of_sign_def)
  have loop: "cloud_loop opposite_normals target [0, 1] [] (Vec3 (Num 0) (Num 0) (Num 0))
      = Inr ([], Vec3 (Num 0) (Num 0) (Num 0))"
    by (simp add: opposite_normals_def elem_at_def patch_at_def vec3_def vec_add_def)
  have "build_cloud_from_group [0, 1] opposite_normals target = Inr ([], Vec3 NaN NaN NaN)"
    unfolding build_cloud_from_group_def loop
    by (simp add: vec_scale_def glm_normalize_def glm_dot_def glm_inversesqrt_def
        inf_of_sign_def)
  with empty show ?thesis
    by simp
qed

section \<open>The cloud of a group has every position once\<close>

text \<open>
  C8. For a group whose indices are in range and whose vertex positions have no NaN
  coordinate, \<open>build_cloud_from_group\<close> returns, and the cloud holds exactly the positions
  of the vertices of the member patches, each of them once, however many patches reach it.
  Two positions count as the same exactly when they are equal, coordinate by coordinate
  (the comparison, which on these positions is the lexicographic order of the three
  coordinates, finds neither less than the other). The cloud is in strictly ascending
  lexicographic order, so its order is fixed by the set of positions alone: it is the only
  list in that order with these elements.
\<close>

theorem cloud_of_numbers_without_duplicates:
  assumes range: "group_in_range grp descriptors target"
    and nonan: "\<forall>v \<in> group_positions grp descriptors target. no_nan v"
  shows "\<exists>cloud avg_normal.
           build_cloud_from_group grp descriptors target = Inr (cloud, avg_normal)
         \<and> set cloud = group_positions grp descriptors target
         \<and> distinct cloud
         \<and> (\<forall>a \<in> set cloud. \<forall>b \<in> set cloud.
               (\<not> comp_point a b \<and> \<not> comp_point b a) \<longleftrightarrow> a = b)
         \<and> sorted_wrt comp_point cloud
         \<and> (\<forall>other. sorted_wrt comp_point other \<and> set other = set cloud \<longrightarrow> other = cloud)"
proof -
  from build_cloud_from_group_total [OF range nonan] obtain cloud avg_normal where
    run: "build_cloud_from_group grp descriptors target = Inr (cloud, avg_normal)"
    by blast
  from returned_cloud_sorted_set [OF run nonan]
  have set: "set cloud = group_positions grp descriptors target"
    and sorted: "sorted_wrt comp_point cloud" and nn: "\<forall>v \<in> set cloud. no_nan v"
    by simp_all
  from sorted have distinct: "distinct cloud"
    by (rule sorted_wrt_irrefl_distinct) (simp add: comp_point_irrefl)
  have equal: "\<forall>a \<in> set cloud. \<forall>b \<in> set cloud. (\<not> comp_point a b \<and> \<not> comp_point b a) \<longleftrightarrow> a = b"
    using nn comp_point_equal_iff by blast
  have unique: "other = cloud" if "sorted_wrt comp_point other \<and> set other = set cloud" for other
  proof -
    from that have o: "sorted_wrt comp_point other" "set cloud = set other"
      by simp_all
    have "cloud = other"
    proof (rule sorted_wrt_unique [OF sorted o])
      show "\<not> comp_point a a" for a
        by (rule comp_point_irrefl)
      show "comp_point a c"
        if "a \<in> set cloud" "b \<in> set cloud" "c \<in> set cloud" "comp_point a b" "comp_point b c"
        for a b c
        using that nn by (blast intro: comp_point_trans)
    qed
    then show ?thesis by simp
  qed
  from run set distinct equal sorted unique show ?thesis
    by blast
qed

theorem cloud_of_numbers_without_duplicates_witness:
  "group_in_range [0, 1] (edge_patches Convex) (triangle_mesh 0)
   \<and> group_positions [0, 1] (edge_patches Convex) (triangle_mesh 0)
     = {vec3 0 0 0, vec3 2 0 0, vec3 0 2 0}
   \<and> no_nan (vec3 0 0 0) \<and> no_nan (vec3 2 0 0) \<and> no_nan (vec3 0 2 0)
   \<and> build_cloud_from_group [0, 1] (edge_patches Convex) (triangle_mesh 0)
     = Inr ([vec3 0 0 0, vec3 0 2 0, vec3 2 0 0], vec3 0 0 1)
   \<and> set [vec3 0 0 0, vec3 0 2 0, vec3 2 0 0]
     = group_positions [0, 1] (edge_patches Convex) (triangle_mesh 0)
   \<and> distinct [vec3 0 0 0, vec3 0 2 0, vec3 2 0 0]
   \<and> sorted_wrt comp_point [vec3 0 0 0, vec3 0 2 0, vec3 2 0 0]"
proof -
  have range: "group_in_range [0, 1] (edge_patches Convex) (triangle_mesh 0)"
    by (simp add: group_in_range_def edge_patches_def patch_at_def triangle_mesh_def)
  have positions: "group_positions [0, 1] (edge_patches Convex) (triangle_mesh 0)
      = {vec3 0 0 0, vec3 2 0 0, vec3 0 2 0}"
    by (auto simp: group_positions_def edge_patches_def patch_at_def triangle_mesh_def)
  have nonan: "no_nan (vec3 0 0 0)" "no_nan (vec3 2 0 0)" "no_nan (vec3 0 2 0)"
    by (simp_all add: no_nan_def vec3_def)
  with positions
  have "\<forall>v \<in> group_positions [0, 1] (edge_patches Convex) (triangle_mesh 0). no_nan v"
    by simp
  from cloud_of_numbers_without_duplicates [OF range this] obtain cloud avg_normal where
    "build_cloud_from_group [0, 1] (edge_patches Convex) (triangle_mesh 0)
       = Inr (cloud, avg_normal)"
    "set cloud = group_positions [0, 1] (edge_patches Convex) (triangle_mesh 0)"
    "distinct cloud" "sorted_wrt comp_point cloud"
    by blast
  moreover from this(1) have "cloud = [vec3 0 0 0, vec3 0 2 0, vec3 2 0 0]"
    by (simp add: cloud_edge_patches)
  ultimately show ?thesis
    using range positions nonan cloud_edge_patches by blast
qed

text \<open>
  A position with a NaN coordinate is neither less nor greater than any other position, so
  the set takes it for every position it meets. Over a mesh of the two vertices
  \<open>(NaN, 0, 0)\<close> and \<open>(1, 0, 0)\<close>, the cloud of a patch with the vertices 0 and 1 is
  \<open>(NaN, 0, 0)\<close> alone, the position \<open>(1, 0, 0)\<close> is missing; and the cloud of a patch with
  the same vertices in the other order is \<open>(1, 0, 0)\<close> alone: the cloud is not fixed by the
  positions of the group.
\<close>

theorem nan_position_hides_vertex:
  "build_cloud_from_group [0] (patch_over [0, 1]) nan_mesh
     = Inr ([Vec3 NaN (Num 0) (Num 0)], vec3 0 0 1)
   \<and> group_positions [0] (patch_over [0, 1]) nan_mesh = {Vec3 NaN (Num 0) (Num 0), vec3 1 0 0}
   \<and> vec3 1 0 0 \<notin> set [Vec3 NaN (Num 0) (Num 0)]
   \<and> build_cloud_from_group [0] (patch_over [1, 0]) nan_mesh = Inr ([vec3 1 0 0], vec3 0 0 1)
   \<and> group_positions [0] (patch_over [1, 0]) nan_mesh = {Vec3 NaN (Num 0) (Num 0), vec3 1 0 0}
   \<and> Vec3 NaN (Num 0) (Num 0) \<notin> set [vec3 1 0 0]"
proof -
  have nodes: "get_node nan_mesh 0 = Inr (node_at (Vec3 NaN (Num 0) (Num 0)))"
    "get_node nan_mesh 1 = Inr (node_at (vec3 1 0 0))"
    by (simp_all add: get_node_def elem_at_def nan_mesh_def)
  have less: "\<not> comp_point (Vec3 NaN (Num 0) (Num 0)) (vec3 1 0 0)"
    "\<not> comp_point (vec3 1 0 0) (Vec3 NaN (Num 0) (Num 0))"
    "\<not> comp_point (vec3 1 0 0) (vec3 1 0 0)"
    "\<not> comp_point (Vec3 NaN (Num 0) (Num 0)) (Vec3 NaN (Num 0) (Num 0))"
    by (simp_all add: comp_point_def vec3_def deq_def)
  have first: "insert_patch_nodes nan_mesh [0, 1] [] = Inr [Vec3 NaN (Num 0) (Num 0)]"
    by (simp add: nodes std_set_insert_def strict_weak_on_def less)
  have second: "insert_patch_nodes nan_mesh [1, 0] [] = Inr [vec3 1 0 0]"
    by (simp add: nodes std_set_insert_def strict_weak_on_def less)
  have normal: "glm_normalize (vec_scale (vec_add (Vec3 (Num 0) (Num 0) (Num 0)) (vec3 0 0 1))
      (Num 1)) = vec3 0 0 1"
    by (simp add: vec3_def vec_add_def vec_scale_def glm_normalize_def glm_dot_def
        glm_inversesqrt_def)
  have a: "build_cloud_from_group [0] (patch_over [0, 1]) nan_mesh
      = Inr ([Vec3 NaN (Num 0) (Num 0)], vec3 0 0 1)"
    unfolding build_cloud_from_group_def
    by (simp add: patch_over_def elem_at_def patch_at_def first del: insert_patch_nodes.simps)
       (rule normal)
  have b: "build_cloud_from_group [0] (patch_over [1, 0]) nan_mesh
      = Inr ([vec3 1 0 0], vec3 0 0 1)"
    unfolding build_cloud_from_group_def
    by (simp add: patch_over_def elem_at_def patch_at_def second del: insert_patch_nodes.simps)
       (rule normal)
  have c: "group_positions [0] (patch_over [0, 1]) nan_mesh
      = {Vec3 NaN (Num 0) (Num 0), vec3 1 0 0}"
    "group_positions [0] (patch_over [1, 0]) nan_mesh
      = {Vec3 NaN (Num 0) (Num 0), vec3 1 0 0}"
    by (auto simp: group_positions_def patch_over_def patch_at_def nan_mesh_def)
  have d: "vec3 1 0 0 \<notin> set [Vec3 NaN (Num 0) (Num 0)]"
    "Vec3 NaN (Num 0) (Num 0) \<notin> set [vec3 1 0 0]"
    by (simp_all add: vec3_def)
  from a b c d show ?thesis
    by blast
qed

section \<open>The order of the kept candidates\<close>

text \<open>
  Whenever the ranking of a target patch returns, no kept entry has a score less than the
  score of an entry before it, entries with equal scores are in the order of their ligand
  indices, every kept entry is the index of a ligand patch of another convexity class than
  the target patch, with the score of that patch, and the kept list is the beginning of a
  rearrangement of the similarity list. (Lemma \<open>ranked_candidates_returns\<close>: the ranking
  returns when no score is NaN and \<open>N_BEST_PAIRS\<close> is between zero and the number of eligible
  candidates.)
\<close>

lemma returned_ranking_ascending:
  assumes "ranked_candidates P t_patch desc_ligand = Inr kept"
  shows "(\<forall>i j. i < j \<and> j < length kept \<longrightarrow> \<not> dless (fst (kept ! j)) (fst (kept ! i)))
       \<and> (\<forall>i j. i < j \<and> j < length kept \<and> deq (fst (kept ! i)) (fst (kept ! j)) \<longrightarrow>
             snd (kept ! i) < snd (kept ! j))
       \<and> (\<forall>c \<in> set kept. 0 \<le> snd c \<and> snd c < int (length desc_ligand)
             \<and> desc_type (snd t_patch) \<noteq> desc_type (snd (desc_ligand ! nat (snd c)))
             \<and> fst c = dissimilarity (snd t_patch) (snd (desc_ligand ! nat (snd c))))
       \<and> (\<exists>dropped. mset (kept @ dropped) = mset (similarity_loop t_patch desc_ligand 0))"
proof -
  let ?xs = "similarity_loop t_patch desc_ligand 0"
  from assms obtain ys where sort: "std_sort std_pair_less ?xs = Inr ys"
    and kept: "kept = take (nat (N_BEST_PAIRS P)) ys"
    by (auto simp: ranked_candidates_def erase_from_def split: sum.splits if_splits)
  from std_sort_Inr [OF sort] have sorted: "sorted_wrt (\<lambda>a b. \<not> std_pair_less b a) ys"
    and perm: "mset ys = mset ?xs"
    by simp_all
  from sorted have sk: "sorted_wrt (\<lambda>a b. \<not> std_pair_less b a) kept"
    unfolding kept by (rule sorted_wrt_take)
  have "distinct (map snd ys)"
    using perm similarity_loop_distinct [of t_patch desc_ligand 0]
    by (metis mset_eq_imp_distinct_iff mset_map)
  then have dk: "distinct (map snd kept)"
    unfolding kept by (simp add: take_map [symmetric])
  have order: "\<not> std_pair_less (kept ! j) (kept ! i)" if "i < j" "j < length kept" for i j
    using sk that by (simp add: sorted_wrt_iff_nth_less)
  have 1: "\<not> dless (fst (kept ! j)) (fst (kept ! i))" if "i < j" "j < length kept" for i j
    using order [OF that] by (auto simp: std_pair_less_def)
  have 2: "snd (kept ! i) < snd (kept ! j)"
    if "i < j" "j < length kept" "deq (fst (kept ! i)) (fst (kept ! j))" for i j
  proof -
    from that(3) have "\<not> dless (fst (kept ! i)) (fst (kept ! j))"
      by (simp add: deq_def)
    with order [OF that(1,2)] have "snd (kept ! i) \<le> snd (kept ! j)"
      by (auto simp: std_pair_less_def)
    moreover from dk that(1,2) have "snd (kept ! i) \<noteq> snd (kept ! j)"
      by (auto simp: distinct_conv_nth)
    ultimately show ?thesis by simp
  qed
  have 3: "0 \<le> snd c \<and> snd c < int (length desc_ligand)
      \<and> desc_type (snd t_patch) \<noteq> desc_type (snd (desc_ligand ! nat (snd c)))
      \<and> fst c = dissimilarity (snd t_patch) (snd (desc_ligand ! nat (snd c)))"
    if "c \<in> set kept" for c
    using assms that by (rule ranked_candidates_entries)
  have 4: "\<exists>dropped. mset (kept @ dropped) = mset ?xs"
  proof
    show "mset (kept @ drop (nat (N_BEST_PAIRS P)) ys) = mset ?xs"
      unfolding kept using perm by simp
  qed
  from 1 2 3 4 show ?thesis
    by blast
qed

lemma scores_four_ligands:
  "similarity_loop (zero_curvature_patch Convex) four_ligands 0
     = [(Num 1, 0), (PInf, 1), (NaN, 2), (Num 1, 3)]"
  by (simp add: zero_curvature_patch_def four_ligands_def curved_patch_def descriptor_def
      dissimilarity_def dsub_def dmax_def inf_of_sign_def)

lemma scores_flat_and_curved:
  "similarity_loop (zero_curvature_patch Convex) [curved_patch 0 Concave, curved_patch 1 Concave] 0
     = [(NaN, 0), (Num 1, 1)]"
  by (simp add: zero_curvature_patch_def curved_patch_def descriptor_def
      dissimilarity_def dsub_def dmax_def)

text \<open>
  C9. The kept list is not in ascending order of the score where a score is NaN or
  infinite, which line 101 produces. For a target patch of curvature 0 and four ligand
  patches of the other class, of curvatures 1, -1, 0 and 1, the scores are 1, infinity, NaN
  and 1. On these pairs \<open>operator<\<close> is not an ordering: \<open>(inf, 1)\<close> is less than
  \<open>(NaN, 2)\<close>, which is less than \<open>(1, 3)\<close>, and \<open>(inf, 1)\<close> is not less than \<open>(1, 3)\<close>. The
  call of \<open>std::sort\<close> at line 110 is undefined; sorting by insertion leaves the list as it
  is, with the score 1 of the last entry behind the score infinity of the second. And
  where the comparison is an ordering on the list, for the two ligand patches of curvatures
  0 and 1 and \<open>N_BEST_PAIRS = 1\<close>, the ranking keeps the entry of score NaN and removes the
  entry of score 1.
\<close>

theorem nan_score_breaks_ranking:
  "similarity_loop (zero_curvature_patch Convex) four_ligands 0
     = [(Num 1, 0), (PInf, 1), (NaN, 2), (Num 1, 3)]
   \<and> std_pair_less (PInf, 1) (NaN, 2) \<and> std_pair_less (NaN, 2) (Num 1, 3)
   \<and> \<not> std_pair_less (PInf, 1) (Num 1, 3)
   \<and> ranked_candidates \<lparr>N_BEST_PAIRS = 4, G_THRESH = 1\<rparr> (zero_curvature_patch Convex)
        four_ligands = Inl CompareNotOrdering
   \<and> foldr (sort_insert std_pair_less) [(Num 1, 0), (PInf, 1), (NaN, 2), (Num 1, 3)] []
     = [(Num 1, 0), (PInf, 1), (NaN, 2), (Num 1, 3)]
   \<and> dless (fst ([(Num 1, 0 :: int), (PInf, 1), (NaN, 2), (Num 1, 3)] ! 3))
            (fst ([(Num 1, 0 :: int), (PInf, 1), (NaN, 2), (Num 1, 3)] ! 1))
   \<and> ranked_candidates \<lparr>N_BEST_PAIRS = 1, G_THRESH = 1\<rparr> (zero_curvature_patch Convex)
        [curved_patch 0 Concave, curved_patch 1 Concave] = Inr [(NaN, 0)]"
proof -
  have less: "std_pair_less (PInf, 1) (NaN, 2)" "std_pair_less (NaN, 2) (Num 1, 3)"
    "\<not> std_pair_less (PInf, 1) (Num 1, 3)"
    by (simp_all add: std_pair_less_def)
  have "\<not> strict_weak_on std_pair_less [(Num 1, 0), (PInf, 1), (NaN, 2), (Num 1, 3)]"
    by (simp add: strict_weak_on_def std_pair_less_def)
  then have undefined: "ranked_candidates \<lparr>N_BEST_PAIRS = 4, G_THRESH = 1\<rparr>
      (zero_curvature_patch Convex) four_ligands = Inl CompareNotOrdering"
    by (simp add: ranked_candidates_def scores_four_ligands std_sort_def)
  have insertion:
    "foldr (sort_insert std_pair_less) [(Num 1, 0), (PInf, 1), (NaN, 2), (Num 1, 3)] []
       = [(Num 1, 0), (PInf, 1), (NaN, 2), (Num 1, 3)]"
    by (simp add: std_pair_less_def)
  have behind: "dless (fst ([(Num 1, 0 :: int), (PInf, 1), (NaN, 2), (Num 1, 3)] ! 3))
      (fst ([(Num 1, 0 :: int), (PInf, 1), (NaN, 2), (Num 1, 3)] ! 1))"
    by simp
  have "strict_weak_on std_pair_less [(NaN, 0), (Num 1, 1)]"
    by (simp add: strict_weak_on_def std_pair_less_def)
  then have "std_sort std_pair_less [(NaN, 0), (Num 1, 1)] = Inr [(NaN, 0), (Num 1, 1)]"
    by (simp add: std_sort_def std_pair_less_def)
  then have kept: "ranked_candidates \<lparr>N_BEST_PAIRS = 1, G_THRESH = 1\<rparr>
      (zero_curvature_patch Convex) [curved_patch 0 Concave, curved_patch 1 Concave]
        = Inr [(NaN, 0)]"
    unfolding ranked_candidates_def scores_flat_and_curved
    by (simp add: erase_from_def)
  from scores_four_ligands less undefined insertion behind kept show ?thesis
    by blast
qed

section \<open>What the two functions leave in place\<close>

text \<open>
  C10. Both functions only append. Whenever \<open>build_matching_groups\<close> returns, every group
  that \<open>groups_out\<close> held at the call is still at its index, with its pairs at their
  positions at the beginning of the group; the groups present at the call take part in the
  grouping like the ones the call creates (the result is the specification's step folded
  over the ranked pairs, started from the list as it was), so that every pair such a group
  has received is within the threshold of all the pairs the group held at the call.
  Whenever \<open>transformations_from_matching_groups\<close> returns, the matrices that
  \<open>mg_transformation\<close> held at the call are the first ones of the result, each at its
  index.
\<close>

theorem outputs_only_appended:
  "(build_matching_groups P desc_target desc_ligand groups_in = Inr groups_out \<longrightarrow>
      groups_out = fold (spec_group_pair P desc_target desc_ligand)
                     (ranked_pairs P desc_target desc_ligand) groups_in
      \<and> length groups_in \<le> length groups_out
      \<and> (\<forall>i < length groups_in.
            prefix (groups_in ! i) (groups_out ! i)
            \<and> (\<forall>p \<in> set (drop (length (groups_in ! i)) (groups_out ! i)).
                 \<forall>q \<in> set (groups_in ! i). within_thresh P desc_target desc_ligand p q)))
   \<and> (transformations_from_matching_groups cloud_centroid matching_groups target desc_target'
         ligand desc_ligand' mg_in = Inr mg_out \<longrightarrow>
      prefix mg_in mg_out \<and> (\<forall>i < length mg_in. mg_out ! i = mg_in ! i))"
proof (intro conjI impI allI ballI)
  assume run: "build_matching_groups P desc_target desc_ligand groups_in = Inr groups_out"
  then show "groups_out = fold (spec_group_pair P desc_target desc_ligand)
      (ranked_pairs P desc_target desc_ligand) groups_in"
    by (rule build_matching_groups_fold)
  from run have grown: "groups_grown P desc_target desc_ligand groups_in groups_out"
    by (rule build_matching_groups_grown)
  then show "length groups_in \<le> length groups_out"
    by (simp add: groups_grown_def)
  fix i assume "i < length groups_in"
  with grown have ins: "inserted_within P desc_target desc_ligand (groups_in ! i) (groups_out ! i)"
    by (auto simp: groups_grown_def)
  then show "prefix (groups_in ! i) (groups_out ! i)"
    by (rule inserted_within_old(1))
  fix p q assume "p \<in> set (drop (length (groups_in ! i)) (groups_out ! i))" "q \<in> set (groups_in ! i)"
  with ins show "within_thresh P desc_target desc_ligand p q"
    by (rule inserted_within_old(2))
next
  assume run: "transformations_from_matching_groups cloud_centroid matching_groups target
      desc_target' ligand desc_ligand' mg_in = Inr mg_out"
  then have take: "take (length mg_in) mg_out = mg_in"
    by (rule transformations_Inr(2))
  then show "prefix mg_in mg_out"
    by (metis take_is_prefix)
  fix i assume "i < length mg_in"
  with take show "mg_out ! i = mg_in ! i"
    by (metis nth_take)
qed

theorem outputs_only_appended_witness:
  "build_matching_groups near_params (two_patches Convex) (two_patches Concave) [[(1, 0)]]
     = Inr [[(1, 0), (0, 0), (1, 1)]]
   \<and> prefix [(1, 0)] [(1 :: int, 0 :: int), (0, 0), (1, 1)]
   \<and> within_thresh near_params (two_patches Convex) (two_patches Concave) (0, 0) (1, 0)
   \<and> within_thresh near_params (two_patches Convex) (two_patches Concave) (1, 1) (1, 0)
   \<and> transformations_from_matching_groups mean_point [[(0, 0), (1, 1)], [(0, 1)]]
       (triangle_mesh 0) (edge_patches Convex) (triangle_mesh 3) (edge_patches Concave)
       [mat4_identity]
     = Inr [mat4_identity, translation 0 0 (- 3), translation 0 (- 1) (- 3)]
   \<and> prefix [mat4_identity] [mat4_identity, translation 0 0 (- 3), translation 0 (- 1) (- 3)]"
proof -
  note a = outputs_only_appended [THEN conjunct1, THEN mp, OF build_two_patches_init]
  note b = outputs_only_appended [THEN conjunct2, THEN mp, OF transformations_triangle]
  have i: "(0 :: nat) < length [[(1 :: int, 0 :: int)]]"
    by simp
  note c = a [THEN conjunct2, THEN conjunct2, THEN spec, of 0, THEN mp, OF i]
  from c have "prefix [(1, 0)] [(1 :: int, 0 :: int), (0, 0), (1, 1)]"
    by simp
  moreover from c have "within_thresh near_params (two_patches Convex) (two_patches Concave) (0, 0) (1, 0)"
    by simp
  moreover from c have "within_thresh near_params (two_patches Convex) (two_patches Concave) (1, 1) (1, 0)"
    by simp
  moreover from b have "prefix [mat4_identity]
      [mat4_identity, translation 0 0 (- 3), translation 0 (- 1) (- 3)]"
    by (rule conjunct1)
  ultimately show ?thesis
    using build_two_patches_init transformations_triangle by blast
qed

end
